theory Spec2Isabelle
  imports Complex_Main "HOL-Library.Sublist"
begin

text \<open>
  A model of the movie-information assistant: the OMDB API client with its retry loop
  (\<open>api.py\<close>), the formatters and the tools built on them (\<open>tools.py\<close>), and
  the properties claimed of them. Exceptions are values of a sum type, the requests and
  pauses of a call are returned as a trace, and the remote service and the local dataset
  are arguments of the functions that use them.
\<close>

section \<open>Strings\<close>

text \<open>
  Python strings are modelled as \<^typ>\<open>string\<close>, holding the UTF-8 bytes of the text.
  The three needles the API client looks for (\<open>limit\<close>, \<open>quota\<close>, \<open>not found\<close>) are
  ASCII, and lower-casing a character outside ASCII never completes an occurrence of one
  of them, so \<open>needle in message.lower()\<close> is the byte-level test below.
\<close>

definition lower_char :: "char \<Rightarrow> char" where
  "lower_char c =
     (case map_of (zip ''ABCDEFGHIJKLMNOPQRSTUVWXYZ'' ''abcdefghijklmnopqrstuvwxyz'') c of
        Some l \<Rightarrow> l
      | None \<Rightarrow> c)"

definition lower :: "string \<Rightarrow> string" where
  "lower s = map lower_char s"

text \<open>\<open>needle in haystack\<close>: the needle occurs as a contiguous run.\<close>

fun str_in :: "string \<Rightarrow> string \<Rightarrow> bool" where
  "str_in needle [] = (needle = [])"
| "str_in needle (c # cs) = (prefix needle (c # cs) \<or> str_in needle cs)"

text \<open>\<open>str(n)\<close> for a non-negative integer: its decimal digits.\<close>

fun str_nat :: "nat \<Rightarrow> string" where
  "str_nat n =
     (if n < 10 then [''0123456789'' ! n]
      else str_nat (n div 10) @ [''0123456789'' ! (n mod 10)])"

declare str_nat.simps [simp del]

text \<open>\<open>"\n".join(lines)\<close>\<close>

fun join_lines :: "string list \<Rightarrow> string" where
  "join_lines [] = []"
| "join_lines [l] = l"
| "join_lines (l # m # ls) = l @ [CHR 0x0A] @ join_lines (m # ls)"

section \<open>The API client (api.py)\<close>

subsection \<open>Data\<close>

text \<open>
  A value of a JSON object is a string or something else (a number, a boolean, null, a
  list, an object). The code prints values, compares them with strings and, for the
  error message, calls \<open>lower\<close> on them, so a value that is not a string is kept as
  the text \<open>str\<close> gives for it.
\<close>

datatype json_value = JStr string | JOther string

fun str_json :: "json_value \<Rightarrow> string" where
  "str_json (JStr s) = s"
| "str_json (JOther s) = s"

text \<open>
  A query-parameter dictionary maps names to strings; a movie record maps field names to
  JSON values. The JSON object OMDB answers with is such a record, with the list under
  \<open>Search\<close> (a list of partial records) kept apart.
\<close>

type_synonym params = "string \<rightharpoonup> string"
type_synonym movie = "string \<rightharpoonup> json_value"

record omdb_json =
  field :: "string \<rightharpoonup> json_value"
  search :: "movie list option"

text \<open>
  What one \<open>requests.get\<close> followed by \<open>raise_for_status\<close> and \<open>json()\<close> does:
  it raises \<open>requests.exceptions.Timeout\<close>, it raises another
  \<open>RequestException\<close> (carrying the text of \<open>str(e)\<close>), or it yields the parsed
  JSON: an object, or a value that is not an object (\<open>NotObject\<close>: a list, a string, a
  number, a boolean or null).
\<close>

datatype transport = Timeout | RequestException string | Response omdb_json | NotObject

text \<open>
  The remote service: the answer to the \<open>n\<close>-th request sent so far, for the query
  parameters of that request.
\<close>

type_synonym world = "nat \<Rightarrow> params \<Rightarrow> transport"

text \<open>
  What a call does besides returning: requests sent and pauses taken, in order. A pause
  carries the argument of \<open>time.sleep\<close> in seconds, as a real number; the rounding of
  floating-point arithmetic is not modelled.
\<close>

datatype event = Request | Sleep real

text \<open>
  The source has one exception class, \<open>OMDBAPIError\<close>, raised at six places with six
  messages; each place is a constructor here and \<open>str_error\<close> gives the message.
\<close>

datatype omdb_error =
    ConfigurationError
  | RateLimited string
  | ApiError string
  | TimedOut
  | Network string
  | Exhausted

fun str_error :: "omdb_error \<Rightarrow> string" where
  "str_error ConfigurationError =
     ''OMDB API key is not configured. Please set OMDB_API_KEY in .env file''"
| "str_error (RateLimited error_message) = ''Rate limit exceeded: '' @ error_message"
| "str_error (ApiError error_message) = ''OMDB API error: '' @ error_message"
| "str_error TimedOut = ''Request timeout: OMDB API did not respond in time''"
| "str_error (Network e) = ''Network error: '' @ e"
| "str_error Exhausted = ''Failed to connect to OMDB API after multiple retries''"

text \<open>
  Every exception of the model: \<open>ValueError\<close> and \<open>OverflowError\<close> are what
  \<open>time.sleep\<close> raises on a negative and on a too long pause, \<open>AttributeError\<close>
  what \<open>data.get\<close> raises on JSON that is not an object, \<open>lower\<close> on a value that
  is not a string and \<open>.str\<close> on a column without texts, \<open>KeyError\<close> what
  indexing a table or a row by an absent label raises, \<open>PatternError\<close> what the
  regular-expression compiler raises (\<open>re.error\<close>).
\<close>

datatype exn =
    OMDBAPIError omdb_error
  | ValueError
  | OverflowError
  | AttributeError
  | KeyError string
  | PatternError

text \<open>
  \<open>time.sleep(s)\<close> converts the pause to a 64-bit count of nanoseconds: it raises
  \<open>ValueError\<close> on a negative pause and \<open>OverflowError\<close> on one beyond
  \<open>2 ^ 63\<close> nanoseconds (about \<open>9.2e9\<close> seconds); otherwise it returns after the pause.
\<close>

definition max_sleep :: real where
  "max_sleep = 2 ^ 63 / 10 ^ 9"

definition time_sleep :: "real \<Rightarrow> exn option" where
  "time_sleep s =
     (if s < 0 then Some ValueError
      else if max_sleep < s then Some OverflowError
      else None)"

record config =
  OMDB_API_KEY :: string

subsection \<open>One attempt\<close>

text \<open>
  The body of \<open>for attempt in range(max_retries)\<close>: it returns, raises, or pauses and
  goes on to the next attempt (\<open>Retry s\<close> stands for \<open>time.sleep(s); continue\<close>).
  \<open>AttributeError\<close> is not a \<open>RequestException\<close>, so neither \<open>except\<close> clause
  catches it.
\<close>

datatype step = Return "omdb_json option" | Raise exn | Retry real

definition attempt_once :: "transport \<Rightarrow> int \<Rightarrow> real \<Rightarrow> nat \<Rightarrow> step" where
  "attempt_once resp max_retries retry_delay attempt =
     (case resp of
        NotObject \<Rightarrow> Raise AttributeError
      | Response data \<Rightarrow>
          if field data ''Response'' = Some (JStr ''False'') then
            (case (case field data ''Error'' of Some v \<Rightarrow> v | None \<Rightarrow> JStr ''Unknown error'') of
               JOther other \<Rightarrow> Raise AttributeError
             | JStr error_message \<Rightarrow>
                 if str_in ''limit'' (lower error_message)
                    \<or> str_in ''quota'' (lower error_message)
                 then
                   if int attempt < max_retries - 1
                   then Retry (retry_delay * real (attempt + 1))
                   else Raise (OMDBAPIError (RateLimited error_message))
                 else if str_in ''not found'' (lower error_message) then Return None
                 else Raise (OMDBAPIError (ApiError error_message)))
          else Return (Some data)
      | Timeout \<Rightarrow>
          if int attempt < max_retries - 1 then Retry retry_delay
          else Raise (OMDBAPIError TimedOut)
      | RequestException e \<Rightarrow>
          if int attempt < max_retries - 1 then Retry retry_delay
          else Raise (OMDBAPIError (Network e)))"

subsection \<open>The retry loop\<close>

text \<open>
  The loop over the attempt indices. The first argument gives the transport outcome of
  each attempt. An exception of \<open>time.sleep\<close> leaves the function, no clause catching
  it. Leaving the loop without a result reaches the final \<open>raise\<close> of the function.
\<close>

fun attempts ::
  "(nat \<Rightarrow> transport) \<Rightarrow> int \<Rightarrow> real \<Rightarrow> nat list \<Rightarrow> (exn + omdb_json option) \<times> event list"
where
  "attempts env max_retries retry_delay [] = (Inl (OMDBAPIError Exhausted), [])"
| "attempts env max_retries retry_delay (attempt # rest) =
     (case attempt_once (env attempt) max_retries retry_delay attempt of
        Return r \<Rightarrow> (Inr r, [Request])
      | Raise e \<Rightarrow> (Inl e, [Request])
      | Retry s \<Rightarrow>
          (case time_sleep s of
             Some e \<Rightarrow> (Inl e, [Request])
           | None \<Rightarrow>
               (case attempts env max_retries retry_delay rest of
                  (res, tr) \<Rightarrow> (res, Request # Sleep s # tr))))"

text \<open>\<open>range(max_retries)\<close>\<close>

definition py_range :: "int \<Rightarrow> nat list" where
  "py_range n = [0..<nat n]"

definition call_omdb_api ::
  "config \<Rightarrow> world \<Rightarrow> nat \<Rightarrow> params \<Rightarrow> int \<Rightarrow> real \<Rightarrow> (exn + omdb_json option) \<times> event list"
where
  "call_omdb_api cfg w clock params max_retries retry_delay =
     (if OMDB_API_KEY cfg = [] then (Inl (OMDBAPIError ConfigurationError), [])
      else
        let params' = [''apikey'' \<mapsto> OMDB_API_KEY cfg] ++ params
        in attempts (\<lambda>attempt. w (clock + attempt) params') max_retries retry_delay
             (py_range max_retries))"

text \<open>Projections of a trace: how many requests were sent, and the pauses in order.\<close>

fun requests :: "event list \<Rightarrow> nat" where
  "requests [] = 0"
| "requests (Request # es) = Suc (requests es)"
| "requests (Sleep s # es) = requests es"

fun sleeps :: "event list \<Rightarrow> real list" where
  "sleeps [] = []"
| "sleeps (Request # es) = sleeps es"
| "sleeps (Sleep s # es) = s # sleeps es"

section \<open>Result formatting (tools.py)\<close>

subsection \<open>Display texts\<close>

text \<open>
  The literals of the source that are not ASCII are written out as their UTF-8 bytes; the
  comment beside each gives a transliteration.
\<close>

definition lbl_title :: string where \<comment> \<open>Nazvanie: (title)\<close>
  "lbl_title =
     [CHR 0xD0, CHR 0x9D, CHR 0xD0, CHR 0xB0, CHR 0xD0, CHR 0xB7, CHR 0xD0, CHR 0xB2,
     CHR 0xD0, CHR 0xB0, CHR 0xD0, CHR 0xBD, CHR 0xD0, CHR 0xB8, CHR 0xD0, CHR 0xB5] @
     '': ''"

definition lbl_year :: string where \<comment> \<open>God: (year)\<close>
  "lbl_year =
     [CHR 0xD0, CHR 0x93, CHR 0xD0, CHR 0xBE, CHR 0xD0, CHR 0xB4] @ '': ''"

definition lbl_rated :: string where \<comment> \<open>Reiting: (rated)\<close>
  "lbl_rated =
     [CHR 0xD0, CHR 0xA0, CHR 0xD0, CHR 0xB5, CHR 0xD0, CHR 0xB9, CHR 0xD1, CHR 0x82,
     CHR 0xD0, CHR 0xB8, CHR 0xD0, CHR 0xBD, CHR 0xD0, CHR 0xB3] @ '': ''"

definition lbl_released :: string where \<comment> \<open>Data vykhoda: (released)\<close>
  "lbl_released =
     [CHR 0xD0, CHR 0x94, CHR 0xD0, CHR 0xB0, CHR 0xD1, CHR 0x82, CHR 0xD0, CHR 0xB0] @
     '' '' @ [CHR 0xD0, CHR 0xB2, CHR 0xD1, CHR 0x8B, CHR 0xD1, CHR 0x85, CHR 0xD0,
     CHR 0xBE, CHR 0xD0, CHR 0xB4, CHR 0xD0, CHR 0xB0] @ '': ''"

definition lbl_runtime :: string where \<comment> \<open>Dlitelnost: (runtime)\<close>
  "lbl_runtime =
     [CHR 0xD0, CHR 0x94, CHR 0xD0, CHR 0xBB, CHR 0xD0, CHR 0xB8, CHR 0xD1, CHR 0x82,
     CHR 0xD0, CHR 0xB5, CHR 0xD0, CHR 0xBB, CHR 0xD1, CHR 0x8C, CHR 0xD0, CHR 0xBD,
     CHR 0xD0, CHR 0xBE, CHR 0xD1, CHR 0x81, CHR 0xD1, CHR 0x82, CHR 0xD1, CHR 0x8C] @
     '': ''"

definition lbl_genre :: string where \<comment> \<open>Zhanr: (genre)\<close>
  "lbl_genre =
     [CHR 0xD0, CHR 0x96, CHR 0xD0, CHR 0xB0, CHR 0xD0, CHR 0xBD, CHR 0xD1, CHR 0x80] @
     '': ''"

definition lbl_director :: string where \<comment> \<open>Rezhisser: (director)\<close>
  "lbl_director =
     [CHR 0xD0, CHR 0xA0, CHR 0xD0, CHR 0xB5, CHR 0xD0, CHR 0xB6, CHR 0xD0, CHR 0xB8,
     CHR 0xD1, CHR 0x81, CHR 0xD1, CHR 0x81, CHR 0xD0, CHR 0xB5, CHR 0xD1, CHR 0x80] @
     '': ''"

definition lbl_actors :: string where \<comment> \<open>Aktery: (actors)\<close>
  "lbl_actors =
     [CHR 0xD0, CHR 0x90, CHR 0xD0, CHR 0xBA, CHR 0xD1, CHR 0x82, CHR 0xD0, CHR 0xB5,
     CHR 0xD1, CHR 0x80, CHR 0xD1, CHR 0x8B] @ '': ''"

definition lbl_plot :: string where \<comment> \<open>Opisanie: (plot)\<close>
  "lbl_plot =
     [CHR 0xD0, CHR 0x9E, CHR 0xD0, CHR 0xBF, CHR 0xD0, CHR 0xB8, CHR 0xD1, CHR 0x81,
     CHR 0xD0, CHR 0xB0, CHR 0xD0, CHR 0xBD, CHR 0xD0, CHR 0xB8, CHR 0xD0, CHR 0xB5] @
     '': ''"

definition lbl_language :: string where \<comment> \<open>Yazyk: (language)\<close>
  "lbl_language =
     [CHR 0xD0, CHR 0xAF, CHR 0xD0, CHR 0xB7, CHR 0xD1, CHR 0x8B, CHR 0xD0, CHR 0xBA] @
     '': ''"

definition lbl_country :: string where \<comment> \<open>Strana: (country)\<close>
  "lbl_country =
     [CHR 0xD0, CHR 0xA1, CHR 0xD1, CHR 0x82, CHR 0xD1, CHR 0x80, CHR 0xD0, CHR 0xB0,
     CHR 0xD0, CHR 0xBD, CHR 0xD0, CHR 0xB0] @ '': ''"

definition lbl_awards :: string where \<comment> \<open>Nagrady: (awards)\<close>
  "lbl_awards =
     [CHR 0xD0, CHR 0x9D, CHR 0xD0, CHR 0xB0, CHR 0xD0, CHR 0xB3, CHR 0xD1, CHR 0x80,
     CHR 0xD0, CHR 0xB0, CHR 0xD0, CHR 0xB4, CHR 0xD1, CHR 0x8B] @ '': ''"

definition lbl_imdb_rating :: string where \<comment> \<open>IMDb reiting: (IMDb rating)\<close>
  "lbl_imdb_rating =
     ''IMDb '' @ [CHR 0xD1, CHR 0x80, CHR 0xD0, CHR 0xB5, CHR 0xD0, CHR 0xB9, CHR 0xD1,
     CHR 0x82, CHR 0xD0, CHR 0xB8, CHR 0xD0, CHR 0xBD, CHR 0xD0, CHR 0xB3] @ '': ''"

definition txt_votes :: string where \<comment> \<open> golosov) (votes)\<close>
  "txt_votes =
     '' '' @ [CHR 0xD0, CHR 0xB3, CHR 0xD0, CHR 0xBE, CHR 0xD0, CHR 0xBB, CHR 0xD0,
     CHR 0xBE, CHR 0xD1, CHR 0x81, CHR 0xD0, CHR 0xBE, CHR 0xD0, CHR 0xB2] @ '')''"

definition lbl_csv_rating :: string where \<comment> \<open>Reiting IMDb: (rating, dataset rows)\<close>
  "lbl_csv_rating =
     [CHR 0xD0, CHR 0xA0, CHR 0xD0, CHR 0xB5, CHR 0xD0, CHR 0xB9, CHR 0xD1, CHR 0x82,
     CHR 0xD0, CHR 0xB8, CHR 0xD0, CHR 0xBD, CHR 0xD0, CHR 0xB3] @ '' IMDb: ''"

definition txt_csv_source :: string where \<comment> \<open>(Istochnik: IMDb Top 1000 lokalnyi dataset)\<close>
  "txt_csv_source =
     ''('' @ [CHR 0xD0, CHR 0x98, CHR 0xD1, CHR 0x81, CHR 0xD1, CHR 0x82, CHR 0xD0,
     CHR 0xBE, CHR 0xD1, CHR 0x87, CHR 0xD0, CHR 0xBD, CHR 0xD0, CHR 0xB8, CHR 0xD0,
     CHR 0xBA] @ '': IMDb Top 1000 '' @ [CHR 0xD0, CHR 0xBB, CHR 0xD0, CHR 0xBE, CHR 0xD0,
     CHR 0xBA, CHR 0xD0, CHR 0xB0, CHR 0xD0, CHR 0xBB, CHR 0xD1, CHR 0x8C, CHR 0xD0,
     CHR 0xBD, CHR 0xD1, CHR 0x8B, CHR 0xD0, CHR 0xB9] @ '' '' @ [CHR 0xD0, CHR 0xB4,
     CHR 0xD0, CHR 0xB0, CHR 0xD1, CHR 0x82, CHR 0xD0, CHR 0xB0, CHR 0xD1, CHR 0x81,
     CHR 0xD0, CHR 0xB5, CHR 0xD1, CHR 0x82] @ '')''"

definition txt_film_quote :: string where \<comment> \<open>Film ' (opening of the not-found message)\<close>
  "txt_film_quote =
     [CHR 0xD0, CHR 0xA4, CHR 0xD0, CHR 0xB8, CHR 0xD0, CHR 0xBB, CHR 0xD1, CHR 0x8C,
     CHR 0xD0, CHR 0xBC] @ '' '' @ [CHR 0x27]"

definition txt_not_found_anywhere :: string where \<comment> \<open>' ne naiden ni v OMDB API, ni v lokalnom datasete IMDb Top 1000. Poprobuite ispolzovat search_movies_list ...\<close>
  "txt_not_found_anywhere =
     [CHR 0x27] @ '' '' @ [CHR 0xD0, CHR 0xBD, CHR 0xD0, CHR 0xB5] @ '' '' @ [CHR 0xD0,
     CHR 0xBD, CHR 0xD0, CHR 0xB0, CHR 0xD0, CHR 0xB9, CHR 0xD0, CHR 0xB4, CHR 0xD0,
     CHR 0xB5, CHR 0xD0, CHR 0xBD] @ '' '' @ [CHR 0xD0, CHR 0xBD, CHR 0xD0, CHR 0xB8] @
     '' '' @ [CHR 0xD0, CHR 0xB2] @ '' OMDB API, '' @ [CHR 0xD0, CHR 0xBD, CHR 0xD0,
     CHR 0xB8] @ '' '' @ [CHR 0xD0, CHR 0xB2] @ '' '' @ [CHR 0xD0, CHR 0xBB, CHR 0xD0,
     CHR 0xBE, CHR 0xD0, CHR 0xBA, CHR 0xD0, CHR 0xB0, CHR 0xD0, CHR 0xBB, CHR 0xD1,
     CHR 0x8C, CHR 0xD0, CHR 0xBD, CHR 0xD0, CHR 0xBE, CHR 0xD0, CHR 0xBC] @ '' '' @
     [CHR 0xD0, CHR 0xB4, CHR 0xD0, CHR 0xB0, CHR 0xD1, CHR 0x82, CHR 0xD0, CHR 0xB0,
     CHR 0xD1, CHR 0x81, CHR 0xD0, CHR 0xB5, CHR 0xD1, CHR 0x82, CHR 0xD0, CHR 0xB5] @
     '' IMDb Top 1000. '' @ [CHR 0xD0, CHR 0x9F, CHR 0xD0, CHR 0xBE, CHR 0xD0, CHR 0xBF,
     CHR 0xD1, CHR 0x80, CHR 0xD0, CHR 0xBE, CHR 0xD0, CHR 0xB1, CHR 0xD1, CHR 0x83,
     CHR 0xD0, CHR 0xB9, CHR 0xD1, CHR 0x82, CHR 0xD0, CHR 0xB5] @ '' '' @ [CHR 0xD0,
     CHR 0xB8, CHR 0xD1, CHR 0x81, CHR 0xD0, CHR 0xBF, CHR 0xD0, CHR 0xBE, CHR 0xD0,
     CHR 0xBB, CHR 0xD1, CHR 0x8C, CHR 0xD0, CHR 0xB7, CHR 0xD0, CHR 0xBE, CHR 0xD0,
     CHR 0xB2, CHR 0xD0, CHR 0xB0, CHR 0xD1, CHR 0x82, CHR 0xD1, CHR 0x8C] @
     '' search_movies_list '' @ [CHR 0xD0, CHR 0xB4, CHR 0xD0, CHR 0xBB, CHR 0xD1,
     CHR 0x8F] @ '' '' @ [CHR 0xD0, CHR 0xBF, CHR 0xD0, CHR 0xBE, CHR 0xD0, CHR 0xB8,
     CHR 0xD1, CHR 0x81, CHR 0xD0, CHR 0xBA, CHR 0xD0, CHR 0xB0] @ '' '' @ [CHR 0xD0,
     CHR 0xBF, CHR 0xD0, CHR 0xBE] @ '' '' @ [CHR 0xD1, CHR 0x87, CHR 0xD0, CHR 0xB0,
     CHR 0xD1, CHR 0x81, CHR 0xD1, CHR 0x82, CHR 0xD0, CHR 0xB8, CHR 0xD1, CHR 0x87,
     CHR 0xD0, CHR 0xBD, CHR 0xD0, CHR 0xBE, CHR 0xD0, CHR 0xBC, CHR 0xD1, CHR 0x83] @
     '' '' @ [CHR 0xD1, CHR 0x81, CHR 0xD0, CHR 0xBE, CHR 0xD0, CHR 0xB2, CHR 0xD0,
     CHR 0xBF, CHR 0xD0, CHR 0xB0, CHR 0xD0, CHR 0xB4, CHR 0xD0, CHR 0xB5, CHR 0xD0,
     CHR 0xBD, CHR 0xD0, CHR 0xB8, CHR 0xD1, CHR 0x8E] @ ''.''"

definition txt_movies_for_query :: string where \<comment> \<open>Filmy po zaprosu '\<close>
  "txt_movies_for_query =
     [CHR 0xD0, CHR 0xA4, CHR 0xD0, CHR 0xB8, CHR 0xD0, CHR 0xBB, CHR 0xD1, CHR 0x8C,
     CHR 0xD0, CHR 0xBC, CHR 0xD1, CHR 0x8B] @ '' '' @ [CHR 0xD0, CHR 0xBF, CHR 0xD0,
     CHR 0xBE] @ '' '' @ [CHR 0xD0, CHR 0xB7, CHR 0xD0, CHR 0xB0, CHR 0xD0, CHR 0xBF,
     CHR 0xD1, CHR 0x80, CHR 0xD0, CHR 0xBE, CHR 0xD1, CHR 0x81, CHR 0xD1, CHR 0x83] @
     '' '' @ [CHR 0x27]"

definition txt_not_found_pl :: string where \<comment> \<open>' ne naideny.\<close>
  "txt_not_found_pl =
     [CHR 0x27] @ '' '' @ [CHR 0xD0, CHR 0xBD, CHR 0xD0, CHR 0xB5] @ '' '' @ [CHR 0xD0,
     CHR 0xBD, CHR 0xD0, CHR 0xB0, CHR 0xD0, CHR 0xB9, CHR 0xD0, CHR 0xB4, CHR 0xD0,
     CHR 0xB5, CHR 0xD0, CHR 0xBD, CHR 0xD1, CHR 0x8B] @ ''.''"

definition txt_not_found_pl_paren :: string where \<comment> \<open>) ne naideny.\<close>
  "txt_not_found_pl_paren =
     '') '' @ [CHR 0xD0, CHR 0xBD, CHR 0xD0, CHR 0xB5] @ '' '' @ [CHR 0xD0, CHR 0xBD,
     CHR 0xD0, CHR 0xB0, CHR 0xD0, CHR 0xB9, CHR 0xD0, CHR 0xB4, CHR 0xD0, CHR 0xB5,
     CHR 0xD0, CHR 0xBD, CHR 0xD1, CHR 0x8B] @ ''.''"

definition txt_found :: string where \<comment> \<open>Naideno (found)\<close>
  "txt_found =
     [CHR 0xD0, CHR 0x9D, CHR 0xD0, CHR 0xB0, CHR 0xD0, CHR 0xB9, CHR 0xD0, CHR 0xB4,
     CHR 0xD0, CHR 0xB5, CHR 0xD0, CHR 0xBD, CHR 0xD0, CHR 0xBE] @ '' ''"

definition txt_movies_for_query_mid :: string where \<comment> \<open> filmov po zaprosu '\<close>
  "txt_movies_for_query_mid =
     '' '' @ [CHR 0xD1, CHR 0x84, CHR 0xD0, CHR 0xB8, CHR 0xD0, CHR 0xBB, CHR 0xD1,
     CHR 0x8C, CHR 0xD0, CHR 0xBC, CHR 0xD0, CHR 0xBE, CHR 0xD0, CHR 0xB2] @ '' '' @
     [CHR 0xD0, CHR 0xBF, CHR 0xD0, CHR 0xBE] @ '' '' @ [CHR 0xD0, CHR 0xB7, CHR 0xD0,
     CHR 0xB0, CHR 0xD0, CHR 0xBF, CHR 0xD1, CHR 0x80, CHR 0xD0, CHR 0xBE, CHR 0xD1,
     CHR 0x81, CHR 0xD1, CHR 0x83] @ '' '' @ [CHR 0x27]"

definition txt_movies_paren :: string where \<comment> \<open> filmov (\<close>
  "txt_movies_paren =
     '' '' @ [CHR 0xD1, CHR 0x84, CHR 0xD0, CHR 0xB8, CHR 0xD0, CHR 0xBB, CHR 0xD1,
     CHR 0x8C, CHR 0xD0, CHR 0xBC, CHR 0xD0, CHR 0xBE, CHR 0xD0, CHR 0xB2] @ '' (''"

definition txt_list_footer :: string where \<comment> \<open>newline, Ispolzuite search_movie_by_title s tochnym nazvaniem ...\<close>
  "txt_list_footer =
     [CHR 0x0A, CHR 0xD0, CHR 0x98, CHR 0xD1, CHR 0x81, CHR 0xD0, CHR 0xBF, CHR 0xD0,
     CHR 0xBE, CHR 0xD0, CHR 0xBB, CHR 0xD1, CHR 0x8C, CHR 0xD0, CHR 0xB7, CHR 0xD1,
     CHR 0x83, CHR 0xD0, CHR 0xB9, CHR 0xD1, CHR 0x82, CHR 0xD0, CHR 0xB5] @
     '' search_movie_by_title '' @ [CHR 0xD1, CHR 0x81] @ '' '' @ [CHR 0xD1, CHR 0x82,
     CHR 0xD0, CHR 0xBE, CHR 0xD1, CHR 0x87, CHR 0xD0, CHR 0xBD, CHR 0xD1, CHR 0x8B,
     CHR 0xD0, CHR 0xBC] @ '' '' @ [CHR 0xD0, CHR 0xBD, CHR 0xD0, CHR 0xB0, CHR 0xD0,
     CHR 0xB7, CHR 0xD0, CHR 0xB2, CHR 0xD0, CHR 0xB0, CHR 0xD0, CHR 0xBD, CHR 0xD0,
     CHR 0xB8, CHR 0xD0, CHR 0xB5, CHR 0xD0, CHR 0xBC] @ '' '' @ [CHR 0xD0, CHR 0xB4,
     CHR 0xD0, CHR 0xBB, CHR 0xD1, CHR 0x8F] @ '' '' @ [CHR 0xD0, CHR 0xBF, CHR 0xD0,
     CHR 0xBE, CHR 0xD0, CHR 0xBB, CHR 0xD1, CHR 0x83, CHR 0xD1, CHR 0x87, CHR 0xD0,
     CHR 0xB5, CHR 0xD0, CHR 0xBD, CHR 0xD0, CHR 0xB8, CHR 0xD1, CHR 0x8F] @ '' '' @
     [CHR 0xD0, CHR 0xBF, CHR 0xD0, CHR 0xBE, CHR 0xD0, CHR 0xB4, CHR 0xD1, CHR 0x80,
     CHR 0xD0, CHR 0xBE, CHR 0xD0, CHR 0xB1, CHR 0xD0, CHR 0xBD, CHR 0xD0, CHR 0xBE,
     CHR 0xD0, CHR 0xB9] @ '' '' @ [CHR 0xD0, CHR 0xB8, CHR 0xD0, CHR 0xBD, CHR 0xD1,
     CHR 0x84, CHR 0xD0, CHR 0xBE, CHR 0xD1, CHR 0x80, CHR 0xD0, CHR 0xBC, CHR 0xD0,
     CHR 0xB0, CHR 0xD1, CHR 0x86, CHR 0xD0, CHR 0xB8, CHR 0xD0, CHR 0xB8] @ ''.''"

definition txt_search_error :: string where \<comment> \<open>Oshibka pri poiske filmov: \<close>
  "txt_search_error =
     [CHR 0xD0, CHR 0x9E, CHR 0xD1, CHR 0x88, CHR 0xD0, CHR 0xB8, CHR 0xD0, CHR 0xB1,
     CHR 0xD0, CHR 0xBA, CHR 0xD0, CHR 0xB0] @ '' '' @ [CHR 0xD0, CHR 0xBF, CHR 0xD1,
     CHR 0x80, CHR 0xD0, CHR 0xB8] @ '' '' @ [CHR 0xD0, CHR 0xBF, CHR 0xD0, CHR 0xBE,
     CHR 0xD0, CHR 0xB8, CHR 0xD1, CHR 0x81, CHR 0xD0, CHR 0xBA, CHR 0xD0, CHR 0xB5] @
     '' '' @ [CHR 0xD1, CHR 0x84, CHR 0xD0, CHR 0xB8, CHR 0xD0, CHR 0xBB, CHR 0xD1,
     CHR 0x8C, CHR 0xD0, CHR 0xBC, CHR 0xD0, CHR 0xBE, CHR 0xD0, CHR 0xB2] @ '': ''"

definition txt_search_error_short :: string where \<comment> \<open>Oshibka pri poiske: \<close>
  "txt_search_error_short =
     [CHR 0xD0, CHR 0x9E, CHR 0xD1, CHR 0x88, CHR 0xD0, CHR 0xB8, CHR 0xD0, CHR 0xB1,
     CHR 0xD0, CHR 0xBA, CHR 0xD0, CHR 0xB0] @ '' '' @ [CHR 0xD0, CHR 0xBF, CHR 0xD1,
     CHR 0x80, CHR 0xD0, CHR 0xB8] @ '' '' @ [CHR 0xD0, CHR 0xBF, CHR 0xD0, CHR 0xBE,
     CHR 0xD0, CHR 0xB8, CHR 0xD1, CHR 0x81, CHR 0xD0, CHR 0xBA, CHR 0xD0, CHR 0xB5] @
     '': ''"

definition txt_first_movie :: string where \<comment> \<open>Pervyi film '\<close>
  "txt_first_movie =
     [CHR 0xD0, CHR 0x9F, CHR 0xD0, CHR 0xB5, CHR 0xD1, CHR 0x80, CHR 0xD0, CHR 0xB2,
     CHR 0xD1, CHR 0x8B, CHR 0xD0, CHR 0xB9] @ '' '' @ [CHR 0xD1, CHR 0x84, CHR 0xD0,
     CHR 0xB8, CHR 0xD0, CHR 0xBB, CHR 0xD1, CHR 0x8C, CHR 0xD0, CHR 0xBC] @ '' '' @
     [CHR 0x27]"

definition txt_second_movie :: string where \<comment> \<open>Vtoroi film '\<close>
  "txt_second_movie =
     [CHR 0xD0, CHR 0x92, CHR 0xD1, CHR 0x82, CHR 0xD0, CHR 0xBE, CHR 0xD1, CHR 0x80,
     CHR 0xD0, CHR 0xBE, CHR 0xD0, CHR 0xB9] @ '' '' @ [CHR 0xD1, CHR 0x84, CHR 0xD0,
     CHR 0xB8, CHR 0xD0, CHR 0xBB, CHR 0xD1, CHR 0x8C, CHR 0xD0, CHR 0xBC] @ '' '' @
     [CHR 0x27]"

definition txt_not_found_sg :: string where \<comment> \<open>' ne naiden.\<close>
  "txt_not_found_sg =
     [CHR 0x27] @ '' '' @ [CHR 0xD0, CHR 0xBD, CHR 0xD0, CHR 0xB5] @ '' '' @ [CHR 0xD0,
     CHR 0xBD, CHR 0xD0, CHR 0xB0, CHR 0xD0, CHR 0xB9, CHR 0xD0, CHR 0xB4, CHR 0xD0,
     CHR 0xB5, CHR 0xD0, CHR 0xBD] @ ''.''"

definition txt_comparison :: string where \<comment> \<open>Sravnenie filmov:\<close>
  "txt_comparison =
     [CHR 0xD0, CHR 0xA1, CHR 0xD1, CHR 0x80, CHR 0xD0, CHR 0xB0, CHR 0xD0, CHR 0xB2,
     CHR 0xD0, CHR 0xBD, CHR 0xD0, CHR 0xB5, CHR 0xD0, CHR 0xBD, CHR 0xD0, CHR 0xB8,
     CHR 0xD0, CHR 0xB5] @ '' '' @ [CHR 0xD1, CHR 0x84, CHR 0xD0, CHR 0xB8, CHR 0xD0,
     CHR 0xBB, CHR 0xD1, CHR 0x8C, CHR 0xD0, CHR 0xBC, CHR 0xD0, CHR 0xBE, CHR 0xD0,
     CHR 0xB2] @ '':''"

definition txt_movie_1 :: string where \<comment> \<open>FILM 1: \<close>
  "txt_movie_1 =
     [CHR 0xD0, CHR 0xA4, CHR 0xD0, CHR 0x98, CHR 0xD0, CHR 0x9B, CHR 0xD0, CHR 0xAC,
     CHR 0xD0, CHR 0x9C] @ '' 1: ''"

definition txt_movie_2 :: string where \<comment> \<open>FILM 2: \<close>
  "txt_movie_2 =
     [CHR 0xD0, CHR 0xA4, CHR 0xD0, CHR 0x98, CHR 0xD0, CHR 0x9B, CHR 0xD0, CHR 0xAC,
     CHR 0xD0, CHR 0x9C] @ '' 2: ''"

definition txt_bullet :: string where \<comment> \<open>two spaces, U+2022, space\<close>
  "txt_bullet =
     ''  '' @ [CHR 0xE2, CHR 0x80, CHR 0xA2] @ '' ''"

definition hdr_year :: string where \<comment> \<open>God vypuska:\<close>
  "hdr_year =
     [CHR 0xD0, CHR 0x93, CHR 0xD0, CHR 0xBE, CHR 0xD0, CHR 0xB4] @ '' '' @ [CHR 0xD0,
     CHR 0xB2, CHR 0xD1, CHR 0x8B, CHR 0xD0, CHR 0xBF, CHR 0xD1, CHR 0x83, CHR 0xD1,
     CHR 0x81, CHR 0xD0, CHR 0xBA, CHR 0xD0, CHR 0xB0] @ '':''"

definition hdr_genre :: string where \<comment> \<open>Zhanr:\<close>
  "hdr_genre =
     [CHR 0xD0, CHR 0x96, CHR 0xD0, CHR 0xB0, CHR 0xD0, CHR 0xBD, CHR 0xD1, CHR 0x80] @
     '':''"

definition hdr_director :: string where \<comment> \<open>Rezhisser:\<close>
  "hdr_director =
     [CHR 0xD0, CHR 0xA0, CHR 0xD0, CHR 0xB5, CHR 0xD0, CHR 0xB6, CHR 0xD0, CHR 0xB8,
     CHR 0xD1, CHR 0x81, CHR 0xD1, CHR 0x81, CHR 0xD0, CHR 0xB5, CHR 0xD1, CHR 0x80] @
     '':''"

definition hdr_imdb_rating :: string where \<comment> \<open>IMDb reiting:\<close>
  "hdr_imdb_rating =
     ''IMDb '' @ [CHR 0xD1, CHR 0x80, CHR 0xD0, CHR 0xB5, CHR 0xD0, CHR 0xB9, CHR 0xD1,
     CHR 0x82, CHR 0xD0, CHR 0xB8, CHR 0xD0, CHR 0xBD, CHR 0xD0, CHR 0xB3] @ '':''"

definition hdr_runtime :: string where \<comment> \<open>Dlitelnost:\<close>
  "hdr_runtime =
     [CHR 0xD0, CHR 0x94, CHR 0xD0, CHR 0xBB, CHR 0xD0, CHR 0xB8, CHR 0xD1, CHR 0x82,
     CHR 0xD0, CHR 0xB5, CHR 0xD0, CHR 0xBB, CHR 0xD1, CHR 0x8C, CHR 0xD0, CHR 0xBD,
     CHR 0xD0, CHR 0xBE, CHR 0xD1, CHR 0x81, CHR 0xD1, CHR 0x82, CHR 0xD1, CHR 0x8C] @
     '':''"

definition hdr_actors :: string where \<comment> \<open>Aktery:\<close>
  "hdr_actors =
     [CHR 0xD0, CHR 0x90, CHR 0xD0, CHR 0xBA, CHR 0xD1, CHR 0x82, CHR 0xD0, CHR 0xB5,
     CHR 0xD1, CHR 0x80, CHR 0xD1, CHR 0x8B] @ '':''"

definition hdr_awards :: string where \<comment> \<open>Nagrady:\<close>
  "hdr_awards =
     [CHR 0xD0, CHR 0x9D, CHR 0xD0, CHR 0xB0, CHR 0xD0, CHR 0xB3, CHR 0xD1, CHR 0x80,
     CHR 0xD0, CHR 0xB0, CHR 0xD0, CHR 0xB4, CHR 0xD1, CHR 0x8B] @ '':''"

definition txt_compare_error :: string where \<comment> \<open>Oshibka pri sravnenii filmov: \<close>
  "txt_compare_error =
     [CHR 0xD0, CHR 0x9E, CHR 0xD1, CHR 0x88, CHR 0xD0, CHR 0xB8, CHR 0xD0, CHR 0xB1,
     CHR 0xD0, CHR 0xBA, CHR 0xD0, CHR 0xB0] @ '' '' @ [CHR 0xD0, CHR 0xBF, CHR 0xD1,
     CHR 0x80, CHR 0xD0, CHR 0xB8] @ '' '' @ [CHR 0xD1, CHR 0x81, CHR 0xD1, CHR 0x80,
     CHR 0xD0, CHR 0xB0, CHR 0xD0, CHR 0xB2, CHR 0xD0, CHR 0xBD, CHR 0xD0, CHR 0xB5,
     CHR 0xD0, CHR 0xBD, CHR 0xD0, CHR 0xB8, CHR 0xD0, CHR 0xB8] @ '' '' @ [CHR 0xD1,
     CHR 0x84, CHR 0xD0, CHR 0xB8, CHR 0xD0, CHR 0xBB, CHR 0xD1, CHR 0x8C, CHR 0xD0,
     CHR 0xBC, CHR 0xD0, CHR 0xBE, CHR 0xD0, CHR 0xB2] @ '': ''"

definition txt_dataset_unavailable :: string where \<comment> \<open>Lokalnyi dataset IMDb Top 1000 nedostupen.\<close>
  "txt_dataset_unavailable =
     [CHR 0xD0, CHR 0x9B, CHR 0xD0, CHR 0xBE, CHR 0xD0, CHR 0xBA, CHR 0xD0, CHR 0xB0,
     CHR 0xD0, CHR 0xBB, CHR 0xD1, CHR 0x8C, CHR 0xD0, CHR 0xBD, CHR 0xD1, CHR 0x8B,
     CHR 0xD0, CHR 0xB9] @ '' '' @ [CHR 0xD0, CHR 0xB4, CHR 0xD0, CHR 0xB0, CHR 0xD1,
     CHR 0x82, CHR 0xD0, CHR 0xB0, CHR 0xD1, CHR 0x81, CHR 0xD0, CHR 0xB5, CHR 0xD1,
     CHR 0x82] @ '' IMDb Top 1000 '' @ [CHR 0xD0, CHR 0xBD, CHR 0xD0, CHR 0xB5, CHR 0xD0,
     CHR 0xB4, CHR 0xD0, CHR 0xBE, CHR 0xD1, CHR 0x81, CHR 0xD1, CHR 0x82, CHR 0xD1,
     CHR 0x83, CHR 0xD0, CHR 0xBF, CHR 0xD0, CHR 0xB5, CHR 0xD0, CHR 0xBD] @ ''.''"

subsection \<open>Records from the API\<close>

text \<open>\<open>d.get(key, "N/A")\<close>, as an f-string prints it\<close>

definition get_na :: "movie \<Rightarrow> string \<Rightarrow> string" where
  "get_na d key = (case d key of Some v \<Rightarrow> str_json v | None \<Rightarrow> ''N/A'')"

text \<open>
  The template of \<open>format_movie_info\<close> has thirteen lines, one per element of the list
  below; the formatted text joins them with newlines.
\<close>

definition movie_info_lines :: "movie \<Rightarrow> string list" where
  "movie_info_lines movie_data =
     (let title = get_na movie_data ''Title'';
          year = get_na movie_data ''Year'';
          rated = get_na movie_data ''Rated'';
          released = get_na movie_data ''Released'';
          runtime = get_na movie_data ''Runtime'';
          genre = get_na movie_data ''Genre'';
          director = get_na movie_data ''Director'';
          actors = get_na movie_data ''Actors'';
          plot = get_na movie_data ''Plot'';
          language = get_na movie_data ''Language'';
          country = get_na movie_data ''Country'';
          awards = get_na movie_data ''Awards'';
          imdb_rating = get_na movie_data ''imdbRating'';
          imdb_votes = get_na movie_data ''imdbVotes''
      in [lbl_title @ title,
          lbl_year @ year,
          lbl_rated @ rated,
          lbl_released @ released,
          lbl_runtime @ runtime,
          lbl_genre @ genre,
          lbl_director @ director,
          lbl_actors @ actors,
          lbl_plot @ plot,
          lbl_language @ language,
          lbl_country @ country,
          lbl_awards @ awards,
          lbl_imdb_rating @ imdb_rating @ ''/10 ('' @ imdb_votes @ txt_votes])"

definition format_movie_info :: "movie \<Rightarrow> string" where
  "format_movie_info movie_data = join_lines (movie_info_lines movie_data)"

subsection \<open>Rows of the local dataset\<close>

text \<open>
  A cell of the table is a text, a number (kept as the text \<open>str\<close> gives for it) or the
  missing value, which pandas reads for an empty cell and prints as \<open>nan\<close>. A row taken
  out of the table (\<open>iloc[0]\<close>) is indexed by column label, and indexing by a label it
  does not have raises \<open>KeyError\<close>.
\<close>

datatype cell = Str string | Num string | NaN

fun py_str :: "cell \<Rightarrow> string" where
  "py_str (Str s) = s"
| "py_str (Num s) = s"
| "py_str NaN = ''nan''"

type_synonym series = "string \<rightharpoonup> cell"

definition and_then :: "exn + 'a \<Rightarrow> ('a \<Rightarrow> exn + 'b) \<Rightarrow> exn + 'b" where
  "and_then m f = (case m of Inl e \<Rightarrow> Inl e | Inr v \<Rightarrow> f v)"

text \<open>\<open>f"{movie_row[label]}"\<close>\<close>

definition getitem :: "series \<Rightarrow> string \<Rightarrow> exn + string" where
  "getitem movie_row label =
     (case movie_row label of Some c \<Rightarrow> Inr (py_str c) | None \<Rightarrow> Inl (KeyError label))"

text \<open>The template reads the ten columns in this order; the first absent one raises.\<close>

definition format_movie_from_csv :: "series \<Rightarrow> exn + string" where
  "format_movie_from_csv movie_row =
     and_then (getitem movie_row ''Series_Title'') (\<lambda>series_title.
     and_then (getitem movie_row ''Released_Year'') (\<lambda>released_year.
     and_then (getitem movie_row ''IMDB_Rating'') (\<lambda>imdb_rating.
     and_then (getitem movie_row ''Genre'') (\<lambda>genre.
     and_then (getitem movie_row ''Director'') (\<lambda>director.
     and_then (getitem movie_row ''Star1'') (\<lambda>star1.
     and_then (getitem movie_row ''Star2'') (\<lambda>star2.
     and_then (getitem movie_row ''Star3'') (\<lambda>star3.
     and_then (getitem movie_row ''Star4'') (\<lambda>star4.
     and_then (getitem movie_row ''Overview'') (\<lambda>overview.
       Inr (join_lines
         [lbl_title @ series_title,
          lbl_year @ released_year,
          lbl_csv_rating @ imdb_rating @ ''/10'',
          lbl_genre @ genre,
          lbl_director @ director,
          lbl_actors @ star1 @ '', '' @ star2 @ '', '' @ star3 @ '', '' @ star4,
          lbl_plot @ overview,
          [],
          txt_csv_source])))))))))))"

definition csv_columns :: "string list" where
  "csv_columns =
     [''Series_Title'', ''Released_Year'', ''IMDB_Rating'', ''Genre'', ''Director'',
      ''Star1'', ''Star2'', ''Star3'', ''Star4'', ''Overview'']"

section \<open>The local dataset\<close>

text \<open>
  The table read from the CSV file: its column labels and its rows, a row giving the cell
  under each label.
\<close>

record dataframe =
  columns :: "string list"
  rows :: "(string \<Rightarrow> cell) list"

text \<open>The row as the object \<open>iloc\<close> hands out: indexed by the labels of the table.\<close>

definition as_series :: "dataframe \<Rightarrow> (string \<Rightarrow> cell) \<Rightarrow> series" where
  "as_series d r = (\<lambda>label. if label \<in> set (columns d) then Some (r label) else None)"

text \<open>
  Module initialisation: \<open>pd.read_csv\<close> either raises an \<open>Exception\<close> (given by its
  text) or yields the table. The handler prints a warning and leaves \<open>df = None\<close>.
\<close>

record module_state =
  module_df :: "dataframe option"
  module_stdout :: "string list"

definition load_dataset :: "string + dataframe \<Rightarrow> module_state" where
  "load_dataset read_csv =
     (case read_csv of
        Inr d \<Rightarrow> \<lparr>module_df = Some d, module_stdout = []\<rparr>
      | Inl e \<Rightarrow>
          \<lparr>module_df = None,
           module_stdout = [''Warning: Could not load CSV dataset: '' @ e]\<rparr>)"

text \<open>
  \<open>Series.str.contains(pat, case=False, na=False)\<close> treats \<open>pat\<close> as a regular
  expression (\<open>regex=True\<close> is the default of pandas) and compiles it before looking at
  any cell. The regular-expression engine is a parameter of the model: \<open>rx pat\<close> is the
  outcome of compiling \<open>pat\<close> case-insensitively, an error or the predicate
  \<open>search(s) is not None\<close>. One fact of the syntax is fixed here: a pattern that begins
  with a repetition operator is rejected (\<open>nothing to repeat at position 0\<close>).
\<close>

type_synonym regex_engine = "string \<Rightarrow> exn + (string \<Rightarrow> bool)"

definition re_compile :: "regex_engine \<Rightarrow> string \<Rightarrow> exn + (string \<Rightarrow> bool)" where
  "re_compile rx pat =
     (case pat of
        [] \<Rightarrow> rx pat
      | c # _ \<Rightarrow> if c \<in> set ''*+?'' then Inl PatternError else rx pat)"

text \<open>
  The rows whose cell under \<open>col\<close> is a text that the compiled pattern matches; a cell
  that is not a text counts as no match (\<open>na=False\<close>).
\<close>

definition matching_rows ::
  "(string \<Rightarrow> bool) \<Rightarrow> dataframe \<Rightarrow> string \<Rightarrow> (string \<Rightarrow> cell) list"
where
  "matching_rows m d col =
     filter (\<lambda>r. case r col of Str s \<Rightarrow> m s | Num s \<Rightarrow> False | NaN \<Rightarrow> False) (rows d)"

text \<open>
  A column read from a CSV file holds texts (perhaps with missing values among them) or
  is numeric. The accessor \<open>.str\<close> raises \<open>AttributeError\<close> on a column of a
  table with rows none of whose cells is a text.
\<close>

definition text_column :: "dataframe \<Rightarrow> string \<Rightarrow> bool" where
  "text_column d col =
     (rows d = []
      \<or> list_ex (\<lambda>r. case r col of Str s \<Rightarrow> True | Num s \<Rightarrow> False | NaN \<Rightarrow> False) (rows d))"

text \<open>
  \<open>df[df[col].str.contains(pat, case=False, na=False)]\<close>: selecting a column the table
  does not have raises \<open>KeyError\<close>; then \<open>.str\<close> is taken; then the pattern is
  compiled; then the rows are filtered.
\<close>

definition str_contains ::
  "regex_engine \<Rightarrow> dataframe \<Rightarrow> string \<Rightarrow> string \<Rightarrow> exn + (string \<Rightarrow> cell) list"
where
  "str_contains rx d col pat =
     (if col \<notin> set (columns d) then Inl (KeyError col)
      else if \<not> text_column d col then Inl AttributeError
      else and_then (re_compile rx pat) (\<lambda>m. Inr (matching_rows m d col)))"

section \<open>The tools (tools.py)\<close>

text \<open>
  Every tool calls the client with its default arguments, three attempts and a delay of
  one second. A tool returns its text, or raises what its \<open>except OMDBAPIError\<close>
  clause does not catch.
\<close>

subsection \<open>search_movie_by_title\<close>

definition not_found_message :: "string \<Rightarrow> string" where
  "not_found_message title = txt_film_quote @ title @ txt_not_found_anywhere"

text \<open>The part of the function after the \<open>try\<close> statement.\<close>

definition csv_fallback :: "regex_engine \<Rightarrow> dataframe option \<Rightarrow> string \<Rightarrow> exn + string" where
  "csv_fallback rx df title =
     (case df of
        Some d \<Rightarrow>
          and_then (str_contains rx d ''Series_Title'' title) (\<lambda>result.
            case result of
              movie # _ \<Rightarrow> format_movie_from_csv (as_series d movie)
            | [] \<Rightarrow> Inr (not_found_message title))
      | None \<Rightarrow> Inr (not_found_message title))"

text \<open>\<open>params = {key: value}\<close>, then \<open>if year: params["y"] = year\<close>\<close>

definition with_year :: "params \<Rightarrow> string option \<Rightarrow> params" where
  "with_year params year =
     (case year of
        Some y \<Rightarrow> if y \<noteq> [] then params(''y'' \<mapsto> y) else params
      | None \<Rightarrow> params)"

definition search_movie_by_title ::
  "config \<Rightarrow> world \<Rightarrow> nat \<Rightarrow> regex_engine \<Rightarrow> dataframe option \<Rightarrow> string \<Rightarrow> string option
     \<Rightarrow> exn + string"
where
  "search_movie_by_title cfg w clock rx df title year =
     (let params = with_year [''t'' \<mapsto> title] year
      in case fst (call_omdb_api cfg w clock params 3 1) of
           Inr (Some result) \<Rightarrow> Inr (format_movie_info (field result))
         | Inr None \<Rightarrow> csv_fallback rx df title
         | Inl (OMDBAPIError e) \<Rightarrow> csv_fallback rx df title
         | Inl other \<Rightarrow> Inl other)"

subsection \<open>search_movies_list and search_movies_by_year_and_type\<close>

text \<open>\<open>result.get("Search", [])\<close>\<close>

definition get_search :: "omdb_json \<Rightarrow> movie list" where
  "get_search result = (case search result of Some movies \<Rightarrow> movies | None \<Rightarrow> [])"

text \<open>\<open>result.get('totalResults', len(movies))\<close>, as the f-string prints it\<close>

definition total_results :: "omdb_json \<Rightarrow> movie list \<Rightarrow> string" where
  "total_results result movies =
     (case field result ''totalResults'' of
        Some t \<Rightarrow> str_json t
      | None \<Rightarrow> str_nat (length movies))"

definition list_line :: "nat \<Rightarrow> movie \<Rightarrow> string" where
  "list_line i movie =
     (let title = get_na movie ''Title'';
          year = get_na movie ''Year'';
          movie_type = get_na movie ''Type''
      in str_nat i @ ''. '' @ title @ '' ('' @ year @ '') - '' @ movie_type @ [CHR 0x0A])"

text \<open>\<open>for i, movie in enumerate(ms, i0): output += line(i, movie)\<close>, from an empty output\<close>

fun enumerate_lines :: "(nat \<Rightarrow> movie \<Rightarrow> string) \<Rightarrow> nat \<Rightarrow> movie list \<Rightarrow> string" where
  "enumerate_lines line i [] = []"
| "enumerate_lines line i (movie # ms) = line i movie @ enumerate_lines line (Suc i) ms"

definition search_movies_list ::
  "config \<Rightarrow> world \<Rightarrow> nat \<Rightarrow> string \<Rightarrow> string option \<Rightarrow> exn + string"
where
  "search_movies_list cfg w clock query year =
     (let params = with_year [''s'' \<mapsto> query] year
      in case fst (call_omdb_api cfg w clock params 3 1) of
           Inl (OMDBAPIError e) \<Rightarrow> Inr (txt_search_error @ str_error e)
         | Inl other \<Rightarrow> Inl other
         | Inr None \<Rightarrow> Inr (txt_movies_for_query @ query @ txt_not_found_pl)
         | Inr (Some result) \<Rightarrow>
             if field result ''totalResults'' = Some (JStr ''0'')
             then Inr (txt_movies_for_query @ query @ txt_not_found_pl)
             else
               let movies = get_search result
               in if movies = [] then Inr (txt_movies_for_query @ query @ txt_not_found_pl)
                  else
                    Inr (txt_found @ total_results result movies @ txt_movies_for_query_mid
                           @ query @ [CHR 0x27] @ '':'' @ [CHR 0x0A, CHR 0x0A]
                         @ enumerate_lines list_line 1 (take 10 movies)
                         @ txt_list_footer))"

definition year_type_line :: "nat \<Rightarrow> movie \<Rightarrow> string" where
  "year_type_line i movie =
     (let title = get_na movie ''Title'';
          year = get_na movie ''Year''
      in str_nat i @ ''. '' @ title @ '' ('' @ year @ '')'' @ [CHR 0x0A])"

definition search_movies_by_year_and_type ::
  "config \<Rightarrow> world \<Rightarrow> nat \<Rightarrow> string \<Rightarrow> string \<Rightarrow> string \<Rightarrow> exn + string"
where
  "search_movies_by_year_and_type cfg w clock query year movie_type =
     (let params = [''s'' \<mapsto> query, ''y'' \<mapsto> year, ''type'' \<mapsto> movie_type]
      in case fst (call_omdb_api cfg w clock params 3 1) of
           Inl (OMDBAPIError e) \<Rightarrow> Inr (txt_search_error_short @ str_error e)
         | Inl other \<Rightarrow> Inl other
         | Inr None \<Rightarrow>
             Inr (txt_movies_for_query @ query @ [CHR 0x27] @ '' ('' @ year @ '', ''
                    @ movie_type @ txt_not_found_pl_paren)
         | Inr (Some result) \<Rightarrow>
             if field result ''totalResults'' = Some (JStr ''0'')
             then Inr (txt_movies_for_query @ query @ [CHR 0x27] @ '' ('' @ year @ '', ''
                         @ movie_type @ txt_not_found_pl_paren)
             else
               let movies = get_search result
               in if movies = [] then Inr (txt_movies_for_query @ query @ txt_not_found_pl)
                  else
                    Inr (txt_found @ total_results result movies @ txt_movies_paren
                           @ year @ '', '' @ movie_type @ ''):'' @ [CHR 0x0A, CHR 0x0A]
                         @ enumerate_lines year_type_line 1 movies))"

subsection \<open>compare_two_movies\<close>

text \<open>The template of the comparison, line by line.\<close>

definition comparison :: "movie \<Rightarrow> movie \<Rightarrow> string" where
  "comparison result1 result2 =
     join_lines
       [txt_comparison,
        [],
        txt_movie_1 @ get_na result1 ''Title'',
        txt_movie_2 @ get_na result2 ''Title'',
        [],
        hdr_year,
        txt_bullet @ get_na result1 ''Title'' @ '': '' @ get_na result1 ''Year'',
        txt_bullet @ get_na result2 ''Title'' @ '': '' @ get_na result2 ''Year'',
        [],
        hdr_genre,
        txt_bullet @ get_na result1 ''Title'' @ '': '' @ get_na result1 ''Genre'',
        txt_bullet @ get_na result2 ''Title'' @ '': '' @ get_na result2 ''Genre'',
        [],
        hdr_director,
        txt_bullet @ get_na result1 ''Title'' @ '': '' @ get_na result1 ''Director'',
        txt_bullet @ get_na result2 ''Title'' @ '': '' @ get_na result2 ''Director'',
        [],
        hdr_imdb_rating,
        txt_bullet @ get_na result1 ''Title'' @ '': '' @ get_na result1 ''imdbRating'' @ ''/10'',
        txt_bullet @ get_na result2 ''Title'' @ '': '' @ get_na result2 ''imdbRating'' @ ''/10'',
        [],
        hdr_runtime,
        txt_bullet @ get_na result1 ''Title'' @ '': '' @ get_na result1 ''Runtime'',
        txt_bullet @ get_na result2 ''Title'' @ '': '' @ get_na result2 ''Runtime'',
        [],
        hdr_actors,
        txt_bullet @ get_na result1 ''Title'' @ '': '' @ get_na result1 ''Actors'',
        txt_bullet @ get_na result2 ''Title'' @ '': '' @ get_na result2 ''Actors'',
        [],
        hdr_awards,
        txt_bullet @ get_na result1 ''Title'' @ '': '' @ get_na result1 ''Awards'',
        txt_bullet @ get_na result2 ''Title'' @ '': '' @ get_na result2 ''Awards'']"

text \<open>
  Both lookups are made before either result is inspected; the second one is sent after
  the requests of the first.
\<close>

definition compare_two_movies ::
  "config \<Rightarrow> world \<Rightarrow> nat \<Rightarrow> string \<Rightarrow> string \<Rightarrow> exn + string"
where
  "compare_two_movies cfg w clock title1 title2 =
     (case call_omdb_api cfg w clock [''t'' \<mapsto> title1] 3 1 of
        (Inl (OMDBAPIError e), tr1) \<Rightarrow> Inr (txt_compare_error @ str_error e)
      | (Inl other, tr1) \<Rightarrow> Inl other
      | (Inr result1, tr1) \<Rightarrow>
          (case fst (call_omdb_api cfg w (clock + requests tr1) [''t'' \<mapsto> title2] 3 1) of
             Inl (OMDBAPIError e) \<Rightarrow> Inr (txt_compare_error @ str_error e)
           | Inl other \<Rightarrow> Inl other
           | Inr result2 \<Rightarrow>
               (case result1 of
                  None \<Rightarrow> Inr (txt_first_movie @ title1 @ txt_not_found_sg)
                | Some r1 \<Rightarrow>
                    (case result2 of
                       None \<Rightarrow> Inr (txt_second_movie @ title2 @ txt_not_found_sg)
                     | Some r2 \<Rightarrow> Inr (comparison (field r1) (field r2))))))"

text \<open>
  The comparison read as a table: the seven compared fields in the order of the template,
  each with its heading, the key it reads and what follows the value.
\<close>

definition comparison_fields :: "(string \<times> string \<times> string) list" where
  "comparison_fields =
     [(hdr_year, ''Year'', []),
      (hdr_genre, ''Genre'', []),
      (hdr_director, ''Director'', []),
      (hdr_imdb_rating, ''imdbRating'', ''/10''),
      (hdr_runtime, ''Runtime'', []),
      (hdr_actors, ''Actors'', []),
      (hdr_awards, ''Awards'', [])]"

text \<open>The entry of one movie under one field: the bullet line of the template.\<close>

definition entry :: "movie \<Rightarrow> string \<Rightarrow> string \<Rightarrow> string" where
  "entry m key ending = txt_bullet @ get_na m ''Title'' @ '': '' @ get_na m key @ ending"

text \<open>Heading, left column, right column.\<close>

definition comparison_table :: "movie \<Rightarrow> movie \<Rightarrow> (string \<times> string \<times> string) list" where
  "comparison_table a b =
     map (\<lambda>(heading, key, ending). (heading, entry a key ending, entry b key ending))
       comparison_fields"

definition swap_columns :: "(string \<times> string \<times> string) list \<Rightarrow> (string \<times> string \<times> string) list"
where
  "swap_columns t = map (\<lambda>(heading, left, right). (heading, right, left)) t"

definition render_table :: "string \<Rightarrow> string \<Rightarrow> (string \<times> string \<times> string) list \<Rightarrow> string" where
  "render_table name1 name2 t =
     join_lines
       ([txt_comparison, [], txt_movie_1 @ name1, txt_movie_2 @ name2]
        @ concat (map (\<lambda>(heading, left, right). [[], heading, left, right]) t))"

subsection \<open>The tools over the dataset alone\<close>

text \<open>
  The four tools under the heading \<open>CSV Dataset tools\<close> start with the same guard.
  What each does with a loaded table (filtering, \<open>nlargest\<close>, printing of floats) is
  not part of this development and is the parameter \<open>query\<close>.
\<close>

definition get_top_movies_by_genre ::
  "dataframe option \<Rightarrow> (dataframe \<Rightarrow> string \<Rightarrow> int \<Rightarrow> exn + string) \<Rightarrow> string \<Rightarrow> int
     \<Rightarrow> exn + string"
where
  "get_top_movies_by_genre df query genre limit =
     (case df of
        None \<Rightarrow> Inr txt_dataset_unavailable
      | Some d \<Rightarrow> query d genre limit)"

definition get_movies_by_director ::
  "dataframe option \<Rightarrow> (dataframe \<Rightarrow> string \<Rightarrow> exn + string) \<Rightarrow> string \<Rightarrow> exn + string"
where
  "get_movies_by_director df query director =
     (case df of
        None \<Rightarrow> Inr txt_dataset_unavailable
      | Some d \<Rightarrow> query d director)"

definition get_movies_by_actor ::
  "dataframe option \<Rightarrow> (dataframe \<Rightarrow> string \<Rightarrow> exn + string) \<Rightarrow> string \<Rightarrow> exn + string"
where
  "get_movies_by_actor df query actor =
     (case df of
        None \<Rightarrow> Inr txt_dataset_unavailable
      | Some d \<Rightarrow> query d actor)"

definition get_movies_by_rating ::
  "dataframe option \<Rightarrow> (dataframe \<Rightarrow> real \<Rightarrow> string option \<Rightarrow> int \<Rightarrow> exn + string) \<Rightarrow> real
     \<Rightarrow> string option \<Rightarrow> int \<Rightarrow> exn + string"
where
  "get_movies_by_rating df query min_rating genre limit =
     (case df of
        None \<Rightarrow> Inr txt_dataset_unavailable
      | Some d \<Rightarrow> query d min_rating genre limit)"

section \<open>Properties of responses and example data\<close>

text \<open>
  The transport succeeded and the payload is \<open>{"Response": "False", "Error": m}\<close> with
  \<open>limit\<close> or \<open>quota\<close> in \<open>m\<close>, compared case-insensitively.
\<close>

definition rate_limited :: "transport \<Rightarrow> bool" where
  "rate_limited resp =
     (case resp of
        Response data \<Rightarrow>
          field data ''Response'' = Some (JStr ''False'') \<and>
          (case field data ''Error'' of
             Some (JStr m) \<Rightarrow> str_in ''limit'' (lower m) \<or> str_in ''quota'' (lower m)
           | _ \<Rightarrow> False)
      | _ \<Rightarrow> False)"

text \<open>The same with \<open>not found\<close> in the message.\<close>

definition says_not_found :: "transport \<Rightarrow> bool" where
  "says_not_found resp =
     (case resp of
        Response data \<Rightarrow>
          field data ''Response'' = Some (JStr ''False'') \<and>
          (case field data ''Error'' of
             Some (JStr m) \<Rightarrow> str_in ''not found'' (lower m)
           | _ \<Rightarrow> False)
      | _ \<Rightarrow> False)"


text \<open>
  An answer the loop body can read: not JSON other than an object, and not an object
  that says \<open>"Response": "False"\<close> with an \<open>Error\<close> that is not a string.
\<close>

definition readable :: "transport \<Rightarrow> bool" where
  "readable resp =
     (case resp of
        NotObject \<Rightarrow> False
      | Response data \<Rightarrow>
          (if field data ''Response'' = Some (JStr ''False'')
           then (case field data ''Error'' of Some (JOther other) \<Rightarrow> False | _ \<Rightarrow> True)
           else True)
      | _ \<Rightarrow> True)"

text \<open>
  The outcomes that arise inside the attempt loop: a returned value, or one of the four
  errors raised in its body.
\<close>

fun raised_in_loop :: "omdb_error \<Rightarrow> bool" where
  "raised_in_loop (RateLimited m) = True"
| "raised_in_loop (ApiError m) = True"
| "raised_in_loop TimedOut = True"
| "raised_in_loop (Network e) = True"
| "raised_in_loop ConfigurationError = False"
| "raised_in_loop Exhausted = False"

definition resolved_in_loop :: "exn + omdb_json option \<Rightarrow> bool" where
  "resolved_in_loop res =
     (case res of
        Inr r \<Rightarrow> True
      | Inl (OMDBAPIError e) \<Rightarrow> raised_in_loop e
      | Inl other \<Rightarrow> False)"

subsection \<open>Example data\<close>

definition cfg_ok :: config where
  "cfg_ok = \<lparr>OMDB_API_KEY = ''k''\<rparr>"

text \<open>A configuration without the API key.\<close>

definition cfg_missing :: config where
  "cfg_missing = \<lparr>OMDB_API_KEY = []\<rparr>"

definition json_error :: "string \<Rightarrow> omdb_json" where
  "json_error msg =
     \<lparr>field = [''Response'' \<mapsto> JStr ''False'', ''Error'' \<mapsto> JStr msg], search = None\<rparr>"



definition not_found_world :: world where
  "not_found_world n p = Response (json_error ''Movie not found!'')"

definition limit_not_found_world :: world where
  "limit_not_found_world n p = Response (json_error ''Limit not found'')"



text \<open>
  A regular-expression engine on patterns of plain characters: a case-insensitive search
  for the pattern.
\<close>

definition literal_engine :: regex_engine where
  "literal_engine pat = Inr (\<lambda>s. str_in (lower pat) (lower s))"

text \<open>A one-row table with the ten columns, the overview of its row missing.\<close>

definition heat_cells :: "(string \<times> cell) list" where
  "heat_cells =
     [(''Series_Title'', Str ''Heat''),
      (''Released_Year'', Str ''1995''),
      (''IMDB_Rating'', Num ''8.3''),
      (''Genre'', Str ''Crime, Drama''),
      (''Director'', Str ''Michael Mann''),
      (''Star1'', Str ''Al Pacino''),
      (''Star2'', Str ''Robert De Niro''),
      (''Star3'', Str ''Val Kilmer''),
      (''Star4'', Str ''Jon Voight''),
      (''Overview'', NaN)]"

definition heat_row :: "string \<Rightarrow> cell" where
  "heat_row label = (case map_of heat_cells label of Some c \<Rightarrow> c | None \<Rightarrow> NaN)"

definition small_dataset :: dataframe where
  "small_dataset = \<lparr>columns = csv_columns, rows = [heat_row]\<rparr>"

text \<open>The same table read from a file that has no \<open>Overview\<close> column.\<close>

definition dataset_without_overview :: dataframe where
  "dataset_without_overview = \<lparr>columns = butlast csv_columns, rows = [heat_row]\<rparr>"

text \<open>A search answer with fifteen results.\<close>

definition movie_n :: "nat \<Rightarrow> movie" where
  "movie_n n =
     [''Title'' \<mapsto> JStr (''M'' @ str_nat n), ''Year'' \<mapsto> JStr ''2000'',
      ''Type'' \<mapsto> JStr ''movie'']"

definition fifteen_movies :: "movie list" where
  "fifteen_movies = map movie_n [1, 2, 3, 4, 5, 6, 7, 8, 9, 10, 11, 12, 13, 14, 15]"

definition fifteen_results :: omdb_json where
  "fifteen_results =
     \<lparr>field = [''Response'' \<mapsto> JStr ''True'', ''totalResults'' \<mapsto> JStr ''15''],
      search = Some fifteen_movies\<rparr>"

definition fifteen_world :: world where
  "fifteen_world n p = Response fifteen_results"

text \<open>Two records, the first without a plot, and a service that knows both by title.\<close>

definition movie_a :: movie where
  "movie_a =
     [''Response'' \<mapsto> JStr ''True'', ''Title'' \<mapsto> JStr ''Alpha'', ''Year'' \<mapsto> JStr ''1999'',
      ''Genre'' \<mapsto> JStr ''Drama'', ''Director'' \<mapsto> JStr ''Ann'',
      ''imdbRating'' \<mapsto> JStr ''7.1'']"

definition movie_b :: movie where
  "movie_b =
     [''Response'' \<mapsto> JStr ''True'', ''Title'' \<mapsto> JStr ''Beta'', ''Year'' \<mapsto> JStr ''2005'',
      ''Runtime'' \<mapsto> JStr ''101 min'', ''Actors'' \<mapsto> JStr ''Bob'',
      ''Awards'' \<mapsto> JStr ''None'', ''Plot'' \<mapsto> JStr ''A sequel.'']"

definition two_movies_world :: world where
  "two_movies_world n p =
     (if p ''t'' = Some ''Alpha'' then Response \<lparr>field = movie_a, search = None\<rparr>
      else Response \<lparr>field = movie_b, search = None\<rparr>)"

section \<open>Facts about strings\<close>

text \<open>The recursive test is the occurrence of the needle as a contiguous run.\<close>

lemma str_in_iff: "str_in needle s = (\<exists>p q. s = p @ needle @ q)"
proof (induction s)
  case Nil
  then show ?case by simp
next
  case (Cons c cs)
  have "(\<exists>p q. c # cs = p @ needle @ q)
          = ((\<exists>q. c # cs = needle @ q) \<or> (\<exists>p q. cs = p @ needle @ q))"
  proof
    assume "\<exists>p q. c # cs = p @ needle @ q"
    then obtain p q where pq: "c # cs = p @ needle @ q" by blast
    show "(\<exists>q. c # cs = needle @ q) \<or> (\<exists>p q. cs = p @ needle @ q)"
    proof (cases p)
      case Nil
      then show ?thesis using pq by auto
    next
      case (Cons x p')
      then have "cs = p' @ needle @ q" using pq by simp
      then show ?thesis by blast
    qed
  next
    assume "(\<exists>q. c # cs = needle @ q) \<or> (\<exists>p q. cs = p @ needle @ q)"
    then show "\<exists>p q. c # cs = p @ needle @ q"
    proof
      assume "\<exists>q. c # cs = needle @ q"
      then obtain q where "c # cs = [] @ needle @ q" by auto
      then show ?thesis by blast
    next
      assume "\<exists>p q. cs = p @ needle @ q"
      then obtain p q where "c # cs = (c # p) @ needle @ q" by auto
      then show ?thesis by blast
    qed
  qed
  then show ?case using Cons by (simp add: prefix_def)
qed

section \<open>Facts about the retry loop\<close>



lemma attempt_once_not_found:
  assumes "says_not_found resp" and "\<not> rate_limited resp"
  shows "attempt_once resp mr d a = Return None"
  using assms
  by (auto simp: says_not_found_def rate_limited_def attempt_once_def
           split: transport.splits option.splits json_value.splits)

text \<open>A pause is taken only before a further attempt, and is the delay or its multiple.\<close>

lemma attempt_once_retry:
  "attempt_once resp mr d a = Retry s \<Longrightarrow> int a < mr - 1 \<and> (s = d \<or> s = d * real (a + 1))"
  by (auto simp: attempt_once_def
           split: transport.splits option.splits json_value.splits if_splits)


lemma attempt_once_raise_readable:
  "readable resp \<Longrightarrow> attempt_once resp mr d a = Raise e
     \<Longrightarrow> \<exists>x. e = OMDBAPIError x \<and> raised_in_loop x"
  by (auto simp: attempt_once_def readable_def
           split: transport.splits option.splits json_value.splits if_splits)


text \<open>
  With \<open>n\<close> attempts allowed, the longest pause is \<open>d * (n - 1)\<close>; when \<open>time.sleep\<close>
  accepts it, it accepts every pause of the call.
\<close>

lemma pause_accepted:
  assumes d: "0 \<le> d" and longest: "d * real (n - 1) \<le> max_sleep"
    and retry: "attempt_once resp (int n) d a = Retry s"
  shows "time_sleep s = None"
proof -
  have a: "a + 1 \<le> n - 1" and s: "s = d \<or> s = d * real (a + 1)"
    using attempt_once_retry[OF retry] by auto
  have "d * real (a + 1) \<le> d * real (n - 1)"
    using a d by (intro mult_left_mono) simp_all
  moreover have "d \<le> d * real (a + 1)"
    using d by (simp add: mult_le_cancel_left1)
  ultimately have "0 \<le> s \<and> s \<le> max_sleep"
    using s d longest by auto
  then show ?thesis by (simp add: time_sleep_def)
qed







text \<open>
  When every answer is readable and \<open>time.sleep\<close> accepts the longest pause, the loop
  is left by a return or by one of the four errors raised in its body.
\<close>

lemma attempts_upto_resolved:
  assumes "k < n" and d: "0 \<le> d" and longest: "d * real (n - 1) \<le> max_sleep"
    and "\<And>a. k \<le> a \<Longrightarrow> a < n \<Longrightarrow> readable (env a)"
  shows "resolved_in_loop (fst (attempts env (int n) d [k..<n]))"
  using assms(1,4)
proof (induction "n - k" arbitrary: k)
  case 0
  then show ?case by simp
next
  case (Suc m)
  then have unroll: "[k..<n] = k # [Suc k..<n]" by (simp add: upt_conv_Cons)
  have ok: "readable (env k)" using Suc.prems by simp
  show ?case
  proof (cases "attempt_once (env k) (int n) d k")
    case (Return r)
    then show ?thesis unfolding unroll by (simp add: resolved_in_loop_def)
  next
    case (Raise e)
    then show ?thesis unfolding unroll
      using attempt_once_raise_readable[OF ok Raise] by (auto simp: resolved_in_loop_def)
  next
    case (Retry s)
    then have "Suc k < n" using attempt_once_retry[OF Retry] by simp
    then have IH: "resolved_in_loop (fst (attempts env (int n) d [Suc k..<n]))"
      using Suc.hyps(1)[of "Suc k"] Suc.hyps(2) Suc.prems(2) by simp
    show ?thesis unfolding unroll
      using Retry IH pause_accepted[OF d longest Retry]
      by (cases "attempts env (int n) d [Suc k..<n]") simp
  qed
qed

text \<open>
  Under the same conditions the client returns a value or raises \<open>OMDBAPIError\<close>,
  whatever the number of attempts allowed and whether or not the key is configured.
\<close>

lemma call_omdb_api_outcome:
  assumes d: "0 \<le> d" and longest: "d * real (nat mr - 1) \<le> max_sleep"
    and ok: "\<And>a. a < nat mr \<Longrightarrow>
               readable (w (clock + a) ([''apikey'' \<mapsto> OMDB_API_KEY cfg] ++ params))"
  shows "(\<exists>r. fst (call_omdb_api cfg w clock params mr d) = Inr r)
       \<or> (\<exists>e. fst (call_omdb_api cfg w clock params mr d) = Inl (OMDBAPIError e))"
proof (cases "OMDB_API_KEY cfg = [] \<or> mr \<le> 0")
  case True
  then show ?thesis by (auto simp: call_omdb_api_def py_range_def Let_def)
next
  case False
  define env where
    "env = (\<lambda>attempt. w (clock + attempt) ([''apikey'' \<mapsto> OMDB_API_KEY cfg] ++ params))"
  have call: "call_omdb_api cfg w clock params mr d = attempts env mr d [0..<nat mr]"
    using False by (simp add: call_omdb_api_def py_range_def Let_def env_def)
  have pos: "0 < nat mr" and mr: "mr = int (nat mr)" using False by simp_all
  have "resolved_in_loop (fst (attempts env (int (nat mr)) d [0..<nat mr]))"
    by (rule attempts_upto_resolved[OF pos d longest]) (simp add: env_def ok)
  then have "resolved_in_loop (fst (call_omdb_api cfg w clock params mr d))"
    using call mr by simp
  then show ?thesis
    by (cases "fst (call_omdb_api cfg w clock params mr d)")
       (auto simp: resolved_in_loop_def split: exn.splits)
qed

section \<open>Claims about the API client\<close>







text \<open>
  C3, as stated, fails: the test for \<open>limit\<close> and \<open>quota\<close> comes first, so a
  message that contains \<open>not found\<close> and also \<open>limit\<close> is retried as a rate limit.
\<close>

theorem not_found_counterexample:
  "says_not_found (limit_not_found_world 0 ([''apikey'' \<mapsto> OMDB_API_KEY cfg_ok] ++ Map.empty))
   \<and> call_omdb_api cfg_ok limit_not_found_world 0 Map.empty 3 1 =
       (Inl (OMDBAPIError (RateLimited ''Limit not found'')),
        [Request, Sleep 1, Request, Sleep 2, Request])"
  by (simp add: call_omdb_api_def py_range_def cfg_ok_def limit_not_found_world_def
        says_not_found_def attempt_once_def json_error_def lower_def lower_char_def
        time_sleep_def max_sleep_def eval_nat_numeral upt_conv_Cons)

text \<open>
  C3, amended. For every request and every \<open>max_retries \<ge> 1\<close>, with the API key
  configured: if the first attempt's transport succeeds and the payload is
  \<open>{"Response": "False"}\<close> with an error message that contains \<open>not found\<close> and
  contains neither \<open>limit\<close> nor \<open>quota\<close> (all case-insensitively), then
  \<open>call_omdb_api\<close> returns \<open>None\<close> on the first attempt: one request, no pause, no
  error raised.
\<close>

theorem not_found_returns_none:
  assumes key: "OMDB_API_KEY cfg \<noteq> []"
    and mr: "1 \<le> max_retries"
    and nf: "says_not_found (w clock ([''apikey'' \<mapsto> OMDB_API_KEY cfg] ++ params))"
    and no_limit: "\<not> rate_limited (w clock ([''apikey'' \<mapsto> OMDB_API_KEY cfg] ++ params))"
  shows "call_omdb_api cfg w clock params max_retries d = (Inr None, [Request])
       \<and> requests (snd (call_omdb_api cfg w clock params max_retries d)) = 1
       \<and> sleeps (snd (call_omdb_api cfg w clock params max_retries d)) = []"
proof -
  have unroll: "py_range max_retries = 0 # [Suc 0..<nat max_retries]"
    using mr by (simp add: py_range_def upt_conv_Cons)
  have "call_omdb_api cfg w clock params max_retries d = (Inr None, [Request])"
    using key attempt_once_not_found[OF nf no_limit]
    by (simp add: call_omdb_api_def unroll Let_def)
  then show ?thesis by simp
qed

theorem not_found_returns_none_witness:
  "OMDB_API_KEY cfg_ok \<noteq> [] \<and> (1::int) \<le> 3
   \<and> says_not_found (not_found_world 0 ([''apikey'' \<mapsto> OMDB_API_KEY cfg_ok] ++ [''t'' \<mapsto> ''Zzyzx'']))
   \<and> \<not> rate_limited (not_found_world 0 ([''apikey'' \<mapsto> OMDB_API_KEY cfg_ok] ++ [''t'' \<mapsto> ''Zzyzx'']))
   \<and> call_omdb_api cfg_ok not_found_world 0 [''t'' \<mapsto> ''Zzyzx''] 3 1 = (Inr None, [Request])"
proof -
  have key: "OMDB_API_KEY cfg_ok \<noteq> []" by (simp add: cfg_ok_def)
  have nf: "says_not_found (not_found_world n p)" for n p
    by (simp add: not_found_world_def says_not_found_def json_error_def lower_def
          lower_char_def)
  have no_limit: "\<not> rate_limited (not_found_world n p)" for n p
    by (simp add: not_found_world_def rate_limited_def json_error_def lower_def
          lower_char_def)
  show ?thesis
    using not_found_returns_none[of cfg_ok 3 not_found_world 0 "[''t'' \<mapsto> ''Zzyzx'']" 1]
      key nf no_limit
    by simp
qed




section \<open>The formatters\<close>

lemma and_then_Inr [simp]: "and_then (Inr v) f = f v"
  by (simp add: and_then_def)

lemma and_then_Inl [simp]: "and_then (Inl e) f = Inl e"
  by (simp add: and_then_def)

lemma getitem_present: "movie_row label = Some c \<Longrightarrow> getitem movie_row label = Inr (py_str c)"
  by (simp add: getitem_def)

text \<open>
  A row that has the ten columns is formatted; a row that lacks one raises \<open>KeyError\<close>
  for the first label it lacks.
\<close>

lemma format_movie_from_csv_present:
  assumes "set csv_columns \<subseteq> dom movie_row"
  shows "\<exists>text. format_movie_from_csv movie_row = Inr text"
proof -
  have "\<forall>l \<in> set csv_columns. \<exists>c. movie_row l = Some c"
    using assms by auto
  then obtain c1 c2 c3 c4 c5 c6 c7 c8 c9 c10 where
    "movie_row ''Series_Title'' = Some c1" "movie_row ''Released_Year'' = Some c2"
    "movie_row ''IMDB_Rating'' = Some c3" "movie_row ''Genre'' = Some c4"
    "movie_row ''Director'' = Some c5" "movie_row ''Star1'' = Some c6"
    "movie_row ''Star2'' = Some c7" "movie_row ''Star3'' = Some c8"
    "movie_row ''Star4'' = Some c9" "movie_row ''Overview'' = Some c10"
    unfolding csv_columns_def by (metis list.set_intros)
  then show ?thesis
    by (simp add: format_movie_from_csv_def getitem_present)
qed

lemma format_movie_from_csv_absent:
  assumes "\<not> set csv_columns \<subseteq> dom movie_row"
  shows "\<exists>label \<in> set csv_columns. movie_row label = None
           \<and> format_movie_from_csv movie_row = Inl (KeyError label)"
  using assms
  by (simp add: csv_columns_def format_movie_from_csv_def getitem_def dom_def
        split: option.splits) auto

text \<open>The text \<open>format_movie_info\<close> returns, character by character.\<close>

lemma format_movie_info_text:
  "format_movie_info movie_data =
     lbl_title @ get_na movie_data ''Title'' @ [CHR 0x0A]
     @ lbl_year @ get_na movie_data ''Year'' @ [CHR 0x0A]
     @ lbl_rated @ get_na movie_data ''Rated'' @ [CHR 0x0A]
     @ lbl_released @ get_na movie_data ''Released'' @ [CHR 0x0A]
     @ lbl_runtime @ get_na movie_data ''Runtime'' @ [CHR 0x0A]
     @ lbl_genre @ get_na movie_data ''Genre'' @ [CHR 0x0A]
     @ lbl_director @ get_na movie_data ''Director'' @ [CHR 0x0A]
     @ lbl_actors @ get_na movie_data ''Actors'' @ [CHR 0x0A]
     @ lbl_plot @ get_na movie_data ''Plot'' @ [CHR 0x0A]
     @ lbl_language @ get_na movie_data ''Language'' @ [CHR 0x0A]
     @ lbl_country @ get_na movie_data ''Country'' @ [CHR 0x0A]
     @ lbl_awards @ get_na movie_data ''Awards'' @ [CHR 0x0A]
     @ lbl_imdb_rating @ get_na movie_data ''imdbRating'' @ ''/10 ('' @ get_na movie_data ''imdbVotes'' @ txt_votes"
  by (simp add: format_movie_info_def movie_info_lines_def Let_def)

text \<open>The text \<open>format_movie_from_csv\<close> returns for a row with the ten columns.\<close>

lemma format_movie_from_csv_text:
  assumes "movie_row ''Series_Title'' = Some c1" "movie_row ''Released_Year'' = Some c2"
    "movie_row ''IMDB_Rating'' = Some c3" "movie_row ''Genre'' = Some c4"
    "movie_row ''Director'' = Some c5" "movie_row ''Star1'' = Some c6"
    "movie_row ''Star2'' = Some c7" "movie_row ''Star3'' = Some c8"
    "movie_row ''Star4'' = Some c9" "movie_row ''Overview'' = Some c10"
  shows "format_movie_from_csv movie_row =
     Inr (lbl_title @ py_str c1 @ [CHR 0x0A]
          @ lbl_year @ py_str c2 @ [CHR 0x0A]
          @ lbl_csv_rating @ py_str c3 @ ''/10'' @ [CHR 0x0A]
          @ lbl_genre @ py_str c4 @ [CHR 0x0A]
          @ lbl_director @ py_str c5 @ [CHR 0x0A]
          @ lbl_actors @ py_str c6 @ '', '' @ py_str c7 @ '', '' @ py_str c8 @ '', '' @ py_str c9 @ [CHR 0x0A]
          @ lbl_plot @ py_str c10 @ [CHR 0x0A] @ [CHR 0x0A]
          @ txt_csv_source)"
  using assms by (simp add: format_movie_from_csv_def getitem_present)

text \<open>On a row that lacks a column, the first label it lacks is the one reported.\<close>

lemma format_movie_from_csv_first_absent:
  assumes "\<not> set csv_columns \<subseteq> dom movie_row"
  shows "format_movie_from_csv movie_row
           = Inl (KeyError (hd (filter (\<lambda>label. movie_row label = None) csv_columns)))"
  using assms
  by (auto simp: csv_columns_def format_movie_from_csv_def getitem_def dom_def
        split: option.splits)

lemma movie_info_lines_length: "length (movie_info_lines r) = 13"
  by (simp add: movie_info_lines_def Let_def)

text \<open>
  The numbered lines of a list: line \<open>k\<close> (from 0) carries the number \<open>i + k\<close>.
\<close>

lemma enumerate_lines_nth:
  "enumerate_lines line i ms = concat (map (\<lambda>k. line (i + k) (ms ! k)) [0..<length ms])"
proof (induction ms arbitrary: i)
  case Nil
  then show ?case by simp
next
  case (Cons m ms)
  have "[Suc 0..<Suc (length ms)] = map Suc [0..<length ms]"
    by (simp only: map_Suc_upt)
  then have shift: "map (\<lambda>k. line (i + k) ((m # ms) ! k)) [Suc 0..<Suc (length ms)]
             = map (\<lambda>k. line (Suc i + k) (ms ! k)) [0..<length ms]"
    by (simp only: map_map o_def nth_Cons_Suc add_Suc_right add_Suc)
  show ?case
    using Cons[of "Suc i"] shift by (simp add: upt_conv_Cons del: upt_Suc)
qed

lemma enumerate_lines_take:
  "enumerate_lines line (Suc 0) (take n ms)
     = concat (map (\<lambda>k. line (Suc k) (ms ! k)) [0..<min n (length ms)])"
proof -
  have "map (\<lambda>k. line (Suc 0 + k) (take n ms ! k)) [0..<length (take n ms)]
          = map (\<lambda>k. line (Suc k) (ms ! k)) [0..<min n (length ms)]"
    by (rule map_cong) (auto simp: min_def split: if_splits)
  then show ?thesis by (simp only: enumerate_lines_nth)
qed

lemma enumerate_lines_all:
  "enumerate_lines line (Suc 0) ms = concat (map (\<lambda>k. line (Suc k) (ms ! k)) [0..<length ms])"
  using enumerate_lines_take[of line "length ms" ms] by simp

text \<open>
  The template of the comparison is its table, rendered block by block.
\<close>

lemma comparison_as_table:
  "comparison a b
     = render_table (get_na a ''Title'') (get_na b ''Title'') (comparison_table a b)"
  by (simp add: comparison_def render_table_def comparison_table_def comparison_fields_def
        entry_def)

lemma comparison_table_swap:
  "comparison_table b a = swap_columns (comparison_table a b)"
  by (simp add: comparison_table_def swap_columns_def comparison_fields_def)

section \<open>The client as the tools call it\<close>

lemma call_omdb_api_found:
  assumes key: "OMDB_API_KEY cfg \<noteq> []"
    and mr: "1 \<le> max_retries"
    and resp: "w clock ([''apikey'' \<mapsto> OMDB_API_KEY cfg] ++ params) = Response data"
    and ok: "field data ''Response'' \<noteq> Some (JStr ''False'')"
  shows "call_omdb_api cfg w clock params max_retries d = (Inr (Some data), [Request])"
proof -
  have unroll: "py_range max_retries = 0 # [Suc 0..<nat max_retries]"
    using mr by (simp add: py_range_def upt_conv_Cons)
  show ?thesis
    using key resp ok by (simp add: call_omdb_api_def unroll Let_def attempt_once_def)
qed

lemma default_call_outcome:
  assumes "\<forall>a < 3. readable (w (clock + a) ([''apikey'' \<mapsto> OMDB_API_KEY cfg] ++ params))"
  shows "(\<exists>r. fst (call_omdb_api cfg w clock params 3 1) = Inr r)
     \<or> (\<exists>e. fst (call_omdb_api cfg w clock params 3 1) = Inl (OMDBAPIError e))"
  by (rule call_omdb_api_outcome) (use assms in \<open>simp_all add: max_sleep_def\<close>)

section \<open>The fallback of search_movie_by_title\<close>

lemma csv_fallback_unloaded: "csv_fallback rx None title = Inr (not_found_message title)"
  by (simp add: csv_fallback_def)

lemma as_series_dom: "dom (as_series d r) = set (columns d)"
  by (auto simp: as_series_def dom_def)

lemma csv_fallback_loaded:
  assumes cols: "set csv_columns \<subseteq> set (columns d)"
    and texts: "text_column d ''Series_Title''"
    and pat: "re_compile rx title = Inr m"
  shows "csv_fallback rx (Some d) title =
           (case matching_rows m d ''Series_Title'' of
              [] \<Rightarrow> Inr (not_found_message title)
            | movie # _ \<Rightarrow> format_movie_from_csv (as_series d movie))"
proof -
  have "''Series_Title'' \<in> set (columns d)"
    using cols by (auto simp: csv_columns_def)
  then show ?thesis
    using pat texts by (simp add: csv_fallback_def str_contains_def split: list.splits)
qed

section \<open>Facts about the example data\<close>

lemma cfg_ok_key: "OMDB_API_KEY cfg_ok \<noteq> []"
  by (simp add: cfg_ok_def)

lemma not_found_world_call:
  "call_omdb_api cfg_ok not_found_world clock params 3 1 = (Inr None, [Request])"
  by (simp add: call_omdb_api_def py_range_def cfg_ok_def not_found_world_def attempt_once_def
        json_error_def lower_def lower_char_def eval_nat_numeral upt_conv_Cons)

lemma not_found_world_readable: "readable (not_found_world n p)"
  by (simp add: not_found_world_def readable_def json_error_def)

lemma heat_series:
  "as_series small_dataset heat_row ''Series_Title'' = Some (Str ''Heat'')"
  "as_series small_dataset heat_row ''Released_Year'' = Some (Str ''1995'')"
  "as_series small_dataset heat_row ''IMDB_Rating'' = Some (Num ''8.3'')"
  "as_series small_dataset heat_row ''Genre'' = Some (Str ''Crime, Drama'')"
  "as_series small_dataset heat_row ''Director'' = Some (Str ''Michael Mann'')"
  "as_series small_dataset heat_row ''Star1'' = Some (Str ''Al Pacino'')"
  "as_series small_dataset heat_row ''Star2'' = Some (Str ''Robert De Niro'')"
  "as_series small_dataset heat_row ''Star3'' = Some (Str ''Val Kilmer'')"
  "as_series small_dataset heat_row ''Star4'' = Some (Str ''Jon Voight'')"
  "as_series small_dataset heat_row ''Overview'' = Some NaN"
  by (simp_all add: as_series_def small_dataset_def csv_columns_def heat_row_def heat_cells_def)

lemma heat_text:
  "format_movie_from_csv (as_series small_dataset heat_row) =
     Inr (lbl_title @ ''Heat'' @ [CHR 0x0A]
          @ lbl_year @ ''1995'' @ [CHR 0x0A]
          @ lbl_csv_rating @ ''8.3'' @ ''/10'' @ [CHR 0x0A]
          @ lbl_genre @ ''Crime, Drama'' @ [CHR 0x0A]
          @ lbl_director @ ''Michael Mann'' @ [CHR 0x0A]
          @ lbl_actors @ ''Al Pacino'' @ '', '' @ ''Robert De Niro'' @ '', '' @ ''Val Kilmer'' @ '', '' @ ''Jon Voight'' @ [CHR 0x0A]
          @ lbl_plot @ ''nan'' @ [CHR 0x0A] @ [CHR 0x0A]
          @ txt_csv_source)"
  by (simp add: format_movie_from_csv_def getitem_def heat_series)

lemma heat_without_overview:
  "format_movie_from_csv (as_series dataset_without_overview heat_row)
     = Inl (KeyError ''Overview'')"
  by (simp add: format_movie_from_csv_def getitem_def as_series_def dataset_without_overview_def
        csv_columns_def heat_row_def heat_cells_def)

lemma heat_title_column:
  "text_column small_dataset ''Series_Title''"
  "text_column dataset_without_overview ''Series_Title''"
  by (simp_all add: text_column_def small_dataset_def dataset_without_overview_def
        heat_row_def heat_cells_def)

lemma literal_heat:
  "re_compile literal_engine ''heat'' = Inr (\<lambda>s. str_in (lower ''heat'') (lower s))"
  by (simp add: re_compile_def literal_engine_def)

lemma literal_heat_rows:
  "matching_rows (\<lambda>s. str_in (lower ''heat'') (lower s)) small_dataset ''Series_Title''
     = [heat_row]"
  "matching_rows (\<lambda>s. str_in (lower ''heat'') (lower s)) dataset_without_overview
     ''Series_Title'' = [heat_row]"
  by (simp_all add: matching_rows_def small_dataset_def dataset_without_overview_def
        heat_row_def heat_cells_def lower_def lower_char_def)

lemma fifteen_world_call:
  "call_omdb_api cfg_ok fifteen_world clock params 3 1 = (Inr (Some fifteen_results), [Request])"
  by (rule call_omdb_api_found)
     (simp_all add: cfg_ok_def fifteen_world_def fifteen_results_def)

lemma fifteen_search:
  "field fifteen_results ''totalResults'' = Some (JStr ''15'')"
  "get_search fifteen_results = fifteen_movies"
  "total_results fifteen_results ms = ''15''"
  by (simp_all add: fifteen_results_def get_search_def total_results_def)

lemma movie_n_fields:
  "get_na (movie_n n) ''Title'' = ''M'' @ str_nat n"
  "get_na (movie_n n) ''Year'' = ''2000''"
  "get_na (movie_n n) ''Type'' = ''movie''"
  by (simp_all add: movie_n_def get_na_def)

lemma movie_a_fields:
  "get_na movie_a ''Title'' = ''Alpha''" "get_na movie_a ''Year'' = ''1999''"
  "get_na movie_a ''Rated'' = ''N/A''" "get_na movie_a ''Released'' = ''N/A''"
  "get_na movie_a ''Runtime'' = ''N/A''" "get_na movie_a ''Genre'' = ''Drama''"
  "get_na movie_a ''Director'' = ''Ann''" "get_na movie_a ''Actors'' = ''N/A''"
  "get_na movie_a ''Plot'' = ''N/A''" "get_na movie_a ''Language'' = ''N/A''"
  "get_na movie_a ''Country'' = ''N/A''" "get_na movie_a ''Awards'' = ''N/A''"
  "get_na movie_a ''imdbRating'' = ''7.1''" "get_na movie_a ''imdbVotes'' = ''N/A''"
  by (simp_all add: movie_a_def get_na_def)

lemma str_nat_upto_15:
  "str_nat 1 = ''1''"
  "str_nat 2 = ''2''"
  "str_nat 3 = ''3''"
  "str_nat 4 = ''4''"
  "str_nat 5 = ''5''"
  "str_nat 6 = ''6''"
  "str_nat 7 = ''7''"
  "str_nat 8 = ''8''"
  "str_nat 9 = ''9''"
  "str_nat 10 = ''10''"
  "str_nat 11 = ''11''"
  "str_nat 12 = ''12''"
  "str_nat 13 = ''13''"
  "str_nat 14 = ''14''"
  "str_nat 15 = ''15''"
  by (simp_all add: str_nat.simps)

section \<open>Claims about the tools\<close>

text \<open>
  C4. For every title, \<open>search_movie_by_title\<close> queries the OMDB API first and
  consults the dataset fallback exactly when the API outcome is not-found or failed; the
  fallback path never raises, and degrades to the not-found message when no row matches.
  The code breaks this at a title that is not a regular expression: the fallback hands
  the title to \<open>str.contains\<close>, which compiles it as a pattern. With the dataset
  loaded and the API lookup ending as not-found, or failing for want of an API key, the
  title \<open>*batteries not included\<close> makes the tool raise, whatever the engine does on
  other patterns.
\<close>

theorem fallback_raises_on_pattern_title:
  "fst (call_omdb_api cfg_ok not_found_world 0
          (with_year [''t'' \<mapsto> ''*batteries not included''] None) 3 1) = Inr None
   \<and> search_movie_by_title cfg_ok not_found_world 0 rx (Some small_dataset)
         ''*batteries not included'' None = Inl PatternError
   \<and> fst (call_omdb_api cfg_missing w 0
            (with_year [''t'' \<mapsto> ''*batteries not included''] None) 3 1)
       = Inl (OMDBAPIError ConfigurationError)
   \<and> search_movie_by_title cfg_missing w 0 rx (Some small_dataset)
         ''*batteries not included'' None = Inl PatternError"
proof -
  have pattern: "re_compile rx ''*batteries not included'' = Inl PatternError"
    by (simp add: re_compile_def)
  have fallback: "csv_fallback rx (Some small_dataset) ''*batteries not included''
                    = Inl PatternError"
    using heat_title_column(1)
    by (simp add: csv_fallback_def str_contains_def pattern small_dataset_def csv_columns_def)
  have unconfigured: "call_omdb_api cfg_missing w 0 params 3 1
                        = (Inl (OMDBAPIError ConfigurationError), [])" for params
    by (simp add: call_omdb_api_def cfg_missing_def)
  show ?thesis
    by (simp add: search_movie_by_title_def Let_def not_found_world_call unconfigured fallback)
qed

text \<open>
  What holds of \<open>search_movie_by_title\<close> for every title: it queries the OMDB API
  first; when the API returns a record the result is that record formatted, and the
  result is that of the dataset fallback exactly when the API outcome is not-found
  (\<open>None\<close>) or failed (\<open>OMDBAPIError\<close>); with readable answers no other outcome
  arises. The fallback returns a text whenever the dataset is not loaded, or is loaded
  with the ten columns, texts under \<open>Series_Title\<close>, and the title compiles as a
  pattern: the not-found message when the dataset is not loaded or no row matches, the
  first matching row formatted otherwise.
\<close>

lemma search_movie_by_title_fallback:
  "(\<forall>result. fst (call_omdb_api cfg w clock (with_year [''t'' \<mapsto> title] year) 3 1)
                 = Inr (Some result) \<longrightarrow>
       search_movie_by_title cfg w clock rx df title year
         = Inr (format_movie_info (field result)))
   \<and> (fst (call_omdb_api cfg w clock (with_year [''t'' \<mapsto> title] year) 3 1) = Inr None
        \<or> (\<exists>e. fst (call_omdb_api cfg w clock (with_year [''t'' \<mapsto> title] year) 3 1)
                  = Inl (OMDBAPIError e)) \<longrightarrow>
       search_movie_by_title cfg w clock rx df title year = csv_fallback rx df title)
   \<and> ((\<forall>a < 3. readable (w (clock + a) ([''apikey'' \<mapsto> OMDB_API_KEY cfg]
                                          ++ with_year [''t'' \<mapsto> title] year))) \<longrightarrow>
        (\<exists>r. fst (call_omdb_api cfg w clock (with_year [''t'' \<mapsto> title] year) 3 1) = Inr r)
        \<or> (\<exists>e. fst (call_omdb_api cfg w clock (with_year [''t'' \<mapsto> title] year) 3 1)
                  = Inl (OMDBAPIError e)))
   \<and> (df = None \<longrightarrow> csv_fallback rx df title = Inr (not_found_message title))
   \<and> (\<forall>d m. df = Some d \<and> set csv_columns \<subseteq> set (columns d)
              \<and> text_column d ''Series_Title'' \<and> re_compile rx title = Inr m \<longrightarrow>
         (\<exists>text. csv_fallback rx df title = Inr text)
         \<and> (matching_rows m d ''Series_Title'' = [] \<longrightarrow>
              csv_fallback rx df title = Inr (not_found_message title))
         \<and> (\<forall>movie ms. matching_rows m d ''Series_Title'' = movie # ms \<longrightarrow>
              csv_fallback rx df title = format_movie_from_csv (as_series d movie)))"
proof -
  have found: "\<forall>result. fst (call_omdb_api cfg w clock (with_year [''t'' \<mapsto> title] year) 3 1)
                 = Inr (Some result) \<longrightarrow>
       search_movie_by_title cfg w clock rx df title year
         = Inr (format_movie_info (field result))"
    by (simp add: search_movie_by_title_def Let_def)
  have fallback: "fst (call_omdb_api cfg w clock (with_year [''t'' \<mapsto> title] year) 3 1) = Inr None
        \<or> (\<exists>e. fst (call_omdb_api cfg w clock (with_year [''t'' \<mapsto> title] year) 3 1)
                  = Inl (OMDBAPIError e)) \<longrightarrow>
       search_movie_by_title cfg w clock rx df title year = csv_fallback rx df title"
    by (auto simp: search_movie_by_title_def Let_def)
  have loaded: "(\<exists>text. csv_fallback rx (Some d) title = Inr text)
         \<and> (matching_rows m d ''Series_Title'' = [] \<longrightarrow>
              csv_fallback rx (Some d) title = Inr (not_found_message title))
         \<and> (\<forall>movie ms. matching_rows m d ''Series_Title'' = movie # ms \<longrightarrow>
              csv_fallback rx (Some d) title = format_movie_from_csv (as_series d movie))"
    if cols: "set csv_columns \<subseteq> set (columns d)" and texts: "text_column d ''Series_Title''"
      and pat: "re_compile rx title = Inr m"
    for d m
  proof (cases "matching_rows m d ''Series_Title''")
    case Nil
    then show ?thesis using csv_fallback_loaded[OF cols texts pat] by simp
  next
    case (Cons movie ms)
    have "\<exists>text. format_movie_from_csv (as_series d movie) = Inr text"
      by (rule format_movie_from_csv_present) (simp add: as_series_dom cols)
    then show ?thesis using csv_fallback_loaded[OF cols texts pat] Cons by simp
  qed
  show ?thesis
    using found fallback
      default_call_outcome[of w clock cfg "with_year [''t'' \<mapsto> title] year"] loaded
    by (simp add: csv_fallback_unloaded)
qed

lemma search_movie_by_title_fallback_example:
  "fst (call_omdb_api cfg_ok not_found_world 0 (with_year [''t'' \<mapsto> ''heat''] None) 3 1) = Inr None
   \<and> set csv_columns \<subseteq> set (columns small_dataset)
   \<and> text_column small_dataset ''Series_Title''
   \<and> re_compile literal_engine ''heat'' = Inr (\<lambda>s. str_in (lower ''heat'') (lower s))
   \<and> matching_rows (\<lambda>s. str_in (lower ''heat'') (lower s)) small_dataset ''Series_Title''
       = [heat_row]
   \<and> search_movie_by_title cfg_ok not_found_world 0 literal_engine (Some small_dataset)
         ''heat'' None
       = Inr (lbl_title @ ''Heat'' @ [CHR 0x0A]
            @ lbl_year @ ''1995'' @ [CHR 0x0A]
            @ lbl_csv_rating @ ''8.3'' @ ''/10'' @ [CHR 0x0A]
            @ lbl_genre @ ''Crime, Drama'' @ [CHR 0x0A]
            @ lbl_director @ ''Michael Mann'' @ [CHR 0x0A]
            @ lbl_actors @ ''Al Pacino'' @ '', '' @ ''Robert De Niro'' @ '', '' @ ''Val Kilmer'' @ '', '' @ ''Jon Voight'' @ [CHR 0x0A]
            @ lbl_plot @ ''nan'' @ [CHR 0x0A] @ [CHR 0x0A]
            @ txt_csv_source)
   \<and> search_movie_by_title cfg_ok not_found_world 0 literal_engine None ''heat'' None
       = Inr (not_found_message ''heat'')"
proof -
  have cols: "set csv_columns \<subseteq> set (columns small_dataset)"
    by (simp add: small_dataset_def)
  have out: "fst (call_omdb_api cfg_ok not_found_world 0 (with_year [''t'' \<mapsto> ''heat''] None) 3 1)
               = Inr None"
    by (simp add: not_found_world_call)
  have loaded: "search_movie_by_title cfg_ok not_found_world 0 literal_engine (Some small_dataset)
         ''heat'' None = format_movie_from_csv (as_series small_dataset heat_row)"
    using search_movie_by_title_fallback[of cfg_ok not_found_world 0 "''heat''" None
        literal_engine "Some small_dataset"] out cols literal_heat literal_heat_rows(1)
      heat_title_column(1)
    by simp
  have unloaded: "search_movie_by_title cfg_ok not_found_world 0 literal_engine None ''heat'' None
       = Inr (not_found_message ''heat'')"
    using search_movie_by_title_fallback[of cfg_ok not_found_world 0 "''heat''" None
        literal_engine None] out
    by simp
  show ?thesis
    using out cols literal_heat literal_heat_rows(1) heat_title_column(1) loaded unloaded
      heat_text
    by simp
qed

text \<open>
  C5. If loading the dataset fails at start-up, module initialisation ends with a warning
  printed and \<open>df = None\<close>, and afterwards every call to one of the four tools over the
  dataset (\<open>get_top_movies_by_genre\<close>, \<open>get_movies_by_director\<close>,
  \<open>get_movies_by_actor\<close>, \<open>get_movies_by_rating\<close>) returns the literal
  dataset-unavailable message, whatever its arguments. The fallback of
  \<open>search_movie_by_title\<close>, which is not one of them, then answers with its not-found
  message.
\<close>

theorem dataset_unavailable:
  "module_df (load_dataset (Inl e)) = None
   \<and> module_stdout (load_dataset (Inl e)) = [''Warning: Could not load CSV dataset: '' @ e]
   \<and> get_top_movies_by_genre (module_df (load_dataset (Inl e))) q1 genre limit
       = Inr txt_dataset_unavailable
   \<and> get_movies_by_director (module_df (load_dataset (Inl e))) q2 director
       = Inr txt_dataset_unavailable
   \<and> get_movies_by_actor (module_df (load_dataset (Inl e))) q3 actor
       = Inr txt_dataset_unavailable
   \<and> get_movies_by_rating (module_df (load_dataset (Inl e))) q4 min_rating genre' limit'
       = Inr txt_dataset_unavailable
   \<and> csv_fallback rx (module_df (load_dataset (Inl e))) title = Inr (not_found_message title)"
  by (simp add: load_dataset_def get_top_movies_by_genre_def get_movies_by_director_def
        get_movies_by_actor_def get_movies_by_rating_def csv_fallback_def)

text \<open>
  C6, as stated, fails for \<open>format_movie_from_csv\<close>: it indexes the row directly and
  has no default. A row without the \<open>Overview\<close> column raises \<open>KeyError\<close>, and a
  row whose overview is missing is printed with \<open>nan\<close>, not \<open>N/A\<close>.
\<close>

theorem csv_formatter_counterexample:
  "format_movie_from_csv (as_series dataset_without_overview heat_row)
     = Inl (KeyError ''Overview'')
   \<and> format_movie_from_csv (as_series small_dataset heat_row) =
       Inr (lbl_title @ ''Heat'' @ [CHR 0x0A]
            @ lbl_year @ ''1995'' @ [CHR 0x0A]
            @ lbl_csv_rating @ ''8.3'' @ ''/10'' @ [CHR 0x0A]
            @ lbl_genre @ ''Crime, Drama'' @ [CHR 0x0A]
            @ lbl_director @ ''Michael Mann'' @ [CHR 0x0A]
            @ lbl_actors @ ''Al Pacino'' @ '', '' @ ''Robert De Niro'' @ '', '' @ ''Val Kilmer'' @ '', '' @ ''Jon Voight'' @ [CHR 0x0A]
            @ lbl_plot @ ''nan'' @ [CHR 0x0A] @ [CHR 0x0A]
            @ txt_csv_source)"
  using heat_without_overview heat_text by simp

text \<open>
  C6, amended. \<open>format_movie_info\<close> never raises and substitutes \<open>N/A\<close> for every
  absent field: it returns the thirteen lines of its template, each of the fourteen
  fields shown as its value when present and as \<open>N/A\<close> when absent.
  \<open>format_movie_from_csv\<close> returns a text exactly when the row has all ten columns it
  reads, and then returns the nine lines of its template with every cell as pandas prints
  it, a missing value as \<open>nan\<close>, with no default substituted; on a row that lacks a
  column it raises \<open>KeyError\<close> for the first label the row lacks.
\<close>

theorem formatters_missing_fields:
  "((\<forall>key. shown key = (case movie_data key of Some v \<Rightarrow> str_json v | None \<Rightarrow> ''N/A'')) \<longrightarrow>
      format_movie_info movie_data =
        lbl_title @ shown ''Title'' @ [CHR 0x0A]
        @ lbl_year @ shown ''Year'' @ [CHR 0x0A]
        @ lbl_rated @ shown ''Rated'' @ [CHR 0x0A]
        @ lbl_released @ shown ''Released'' @ [CHR 0x0A]
        @ lbl_runtime @ shown ''Runtime'' @ [CHR 0x0A]
        @ lbl_genre @ shown ''Genre'' @ [CHR 0x0A]
        @ lbl_director @ shown ''Director'' @ [CHR 0x0A]
        @ lbl_actors @ shown ''Actors'' @ [CHR 0x0A]
        @ lbl_plot @ shown ''Plot'' @ [CHR 0x0A]
        @ lbl_language @ shown ''Language'' @ [CHR 0x0A]
        @ lbl_country @ shown ''Country'' @ [CHR 0x0A]
        @ lbl_awards @ shown ''Awards'' @ [CHR 0x0A]
        @ lbl_imdb_rating @ shown ''imdbRating'' @ ''/10 ('' @ shown ''imdbVotes'' @ txt_votes)
   \<and> ((\<exists>text. format_movie_from_csv movie_row = Inr text)
        = (set csv_columns \<subseteq> dom movie_row))
   \<and> (set csv_columns \<subseteq> dom movie_row
        \<and> (\<forall>label c. movie_row label = Some c \<longrightarrow>
              printed label = (case c of Str s \<Rightarrow> s | Num s \<Rightarrow> s | NaN \<Rightarrow> ''nan'')) \<longrightarrow>
      format_movie_from_csv movie_row =
        Inr (lbl_title @ printed ''Series_Title'' @ [CHR 0x0A]
             @ lbl_year @ printed ''Released_Year'' @ [CHR 0x0A]
             @ lbl_csv_rating @ printed ''IMDB_Rating'' @ ''/10'' @ [CHR 0x0A]
             @ lbl_genre @ printed ''Genre'' @ [CHR 0x0A]
             @ lbl_director @ printed ''Director'' @ [CHR 0x0A]
             @ lbl_actors @ printed ''Star1'' @ '', '' @ printed ''Star2'' @ '', '' @ printed ''Star3'' @ '', '' @ printed ''Star4'' @ [CHR 0x0A]
             @ lbl_plot @ printed ''Overview'' @ [CHR 0x0A] @ [CHR 0x0A]
             @ txt_csv_source))
   \<and> (\<not> set csv_columns \<subseteq> dom movie_row \<longrightarrow>
        format_movie_from_csv movie_row
          = Inl (KeyError (hd (filter (\<lambda>label. movie_row label = None) csv_columns))))"
proof -
  have info: "format_movie_info movie_data =
        lbl_title @ shown ''Title'' @ [CHR 0x0A]
        @ lbl_year @ shown ''Year'' @ [CHR 0x0A]
        @ lbl_rated @ shown ''Rated'' @ [CHR 0x0A]
        @ lbl_released @ shown ''Released'' @ [CHR 0x0A]
        @ lbl_runtime @ shown ''Runtime'' @ [CHR 0x0A]
        @ lbl_genre @ shown ''Genre'' @ [CHR 0x0A]
        @ lbl_director @ shown ''Director'' @ [CHR 0x0A]
        @ lbl_actors @ shown ''Actors'' @ [CHR 0x0A]
        @ lbl_plot @ shown ''Plot'' @ [CHR 0x0A]
        @ lbl_language @ shown ''Language'' @ [CHR 0x0A]
        @ lbl_country @ shown ''Country'' @ [CHR 0x0A]
        @ lbl_awards @ shown ''Awards'' @ [CHR 0x0A]
        @ lbl_imdb_rating @ shown ''imdbRating'' @ ''/10 ('' @ shown ''imdbVotes'' @ txt_votes"
    if "\<forall>key. shown key = (case movie_data key of Some v \<Rightarrow> str_json v | None \<Rightarrow> ''N/A'')"
  proof -
    have "shown key = get_na movie_data key" for key
      using that by (simp add: get_na_def)
    then show ?thesis by (simp add: format_movie_info_text)
  qed
  have total: "(\<exists>text. format_movie_from_csv movie_row = Inr text)
                 = (set csv_columns \<subseteq> dom movie_row)"
  proof (cases "set csv_columns \<subseteq> dom movie_row")
    case True
    then show ?thesis using format_movie_from_csv_present[of movie_row] by simp
  next
    case False
    then show ?thesis using format_movie_from_csv_first_absent[of movie_row] by simp
  qed
  have csv: "format_movie_from_csv movie_row =
        Inr (lbl_title @ printed ''Series_Title'' @ [CHR 0x0A]
             @ lbl_year @ printed ''Released_Year'' @ [CHR 0x0A]
             @ lbl_csv_rating @ printed ''IMDB_Rating'' @ ''/10'' @ [CHR 0x0A]
             @ lbl_genre @ printed ''Genre'' @ [CHR 0x0A]
             @ lbl_director @ printed ''Director'' @ [CHR 0x0A]
             @ lbl_actors @ printed ''Star1'' @ '', '' @ printed ''Star2'' @ '', '' @ printed ''Star3'' @ '', '' @ printed ''Star4'' @ [CHR 0x0A]
             @ lbl_plot @ printed ''Overview'' @ [CHR 0x0A] @ [CHR 0x0A]
             @ txt_csv_source)"
    if cols: "set csv_columns \<subseteq> dom movie_row"
      and shown: "\<forall>label c. movie_row label = Some c \<longrightarrow>
              printed label = (case c of Str s \<Rightarrow> s | Num s \<Rightarrow> s | NaN \<Rightarrow> ''nan'')"
  proof -
    have "\<forall>l \<in> set csv_columns. \<exists>c. movie_row l = Some c"
      using cols by auto
    then obtain c1 c2 c3 c4 c5 c6 c7 c8 c9 c10 where cells:
      "movie_row ''Series_Title'' = Some c1" "movie_row ''Released_Year'' = Some c2"
      "movie_row ''IMDB_Rating'' = Some c3" "movie_row ''Genre'' = Some c4"
      "movie_row ''Director'' = Some c5" "movie_row ''Star1'' = Some c6"
      "movie_row ''Star2'' = Some c7" "movie_row ''Star3'' = Some c8"
      "movie_row ''Star4'' = Some c9" "movie_row ''Overview'' = Some c10"
      unfolding csv_columns_def by (metis list.set_intros)
    have print: "printed label = py_str c" if "movie_row label = Some c" for label c
      using shown that by (cases c) simp_all
    show ?thesis
      by (simp add: format_movie_from_csv_text[OF cells] print[OF cells(1)] print[OF cells(2)]
            print[OF cells(3)] print[OF cells(4)] print[OF cells(5)] print[OF cells(6)]
            print[OF cells(7)] print[OF cells(8)] print[OF cells(9)] print[OF cells(10)])
  qed
  show ?thesis
    using info total csv format_movie_from_csv_first_absent[of movie_row] by blast
qed

theorem formatters_missing_fields_witness:
  "format_movie_info movie_a =
     lbl_title @ ''Alpha'' @ [CHR 0x0A]
     @ lbl_year @ ''1999'' @ [CHR 0x0A]
     @ lbl_rated @ ''N/A'' @ [CHR 0x0A]
     @ lbl_released @ ''N/A'' @ [CHR 0x0A]
     @ lbl_runtime @ ''N/A'' @ [CHR 0x0A]
     @ lbl_genre @ ''Drama'' @ [CHR 0x0A]
     @ lbl_director @ ''Ann'' @ [CHR 0x0A]
     @ lbl_actors @ ''N/A'' @ [CHR 0x0A]
     @ lbl_plot @ ''N/A'' @ [CHR 0x0A]
     @ lbl_language @ ''N/A'' @ [CHR 0x0A]
     @ lbl_country @ ''N/A'' @ [CHR 0x0A]
     @ lbl_awards @ ''N/A'' @ [CHR 0x0A]
     @ lbl_imdb_rating @ ''7.1'' @ ''/10 ('' @ ''N/A'' @ txt_votes
   \<and> set csv_columns \<subseteq> dom (as_series small_dataset heat_row)
   \<and> format_movie_from_csv (as_series small_dataset heat_row) =
       Inr (lbl_title @ ''Heat'' @ [CHR 0x0A]
            @ lbl_year @ ''1995'' @ [CHR 0x0A]
            @ lbl_csv_rating @ ''8.3'' @ ''/10'' @ [CHR 0x0A]
            @ lbl_genre @ ''Crime, Drama'' @ [CHR 0x0A]
            @ lbl_director @ ''Michael Mann'' @ [CHR 0x0A]
            @ lbl_actors @ ''Al Pacino'' @ '', '' @ ''Robert De Niro'' @ '', '' @ ''Val Kilmer'' @ '', '' @ ''Jon Voight'' @ [CHR 0x0A]
            @ lbl_plot @ ''nan'' @ [CHR 0x0A] @ [CHR 0x0A]
            @ txt_csv_source)
   \<and> \<not> set csv_columns \<subseteq> dom (as_series dataset_without_overview heat_row)
   \<and> format_movie_from_csv (as_series dataset_without_overview heat_row)
       = Inl (KeyError ''Overview'')"
proof -
  have absent: "\<not> set csv_columns \<subseteq> dom (as_series dataset_without_overview heat_row)"
    by (simp add: as_series_dom dataset_without_overview_def csv_columns_def)
  have present: "set csv_columns \<subseteq> dom (as_series small_dataset heat_row)"
    by (simp add: as_series_dom small_dataset_def)
  have shown: "\<forall>key. get_na movie_a key
                 = (case movie_a key of Some v \<Rightarrow> str_json v | None \<Rightarrow> ''N/A'')"
    by (simp add: get_na_def)
  have printed: "\<forall>label c. as_series small_dataset heat_row label = Some c \<longrightarrow>
      (case as_series small_dataset heat_row label of Some c \<Rightarrow> py_str c | None \<Rightarrow> [])
        = (case c of Str s \<Rightarrow> s | Num s \<Rightarrow> s | NaN \<Rightarrow> ''nan'')"
    by (auto split: cell.splits)
  have first_absent:
    "hd (filter (\<lambda>label. as_series dataset_without_overview heat_row label = None) csv_columns)
       = ''Overview''"
    by (simp add: as_series_def dataset_without_overview_def csv_columns_def)
  note at_heat = formatters_missing_fields[where shown = "get_na movie_a"
      and movie_data = movie_a and movie_row = "as_series small_dataset heat_row"
      and printed = "\<lambda>label. case as_series small_dataset heat_row label of
                                Some c \<Rightarrow> py_str c | None \<Rightarrow> []"]
  note at_short = formatters_missing_fields[where shown = "get_na movie_a"
      and movie_data = movie_a and movie_row = "as_series dataset_without_overview heat_row"
      and printed = "\<lambda>label. []"]
  note info = at_heat[THEN conjunct1, THEN mp, OF shown]
  note csv = at_heat[THEN conjunct2, THEN conjunct2, THEN conjunct1, THEN mp,
      OF conjI[OF present printed]]
  note raised = at_short[THEN conjunct2, THEN conjunct2, THEN conjunct2, THEN mp, OF absent]
  have a: "format_movie_info movie_a =
     lbl_title @ ''Alpha'' @ [CHR 0x0A]
     @ lbl_year @ ''1999'' @ [CHR 0x0A]
     @ lbl_rated @ ''N/A'' @ [CHR 0x0A]
     @ lbl_released @ ''N/A'' @ [CHR 0x0A]
     @ lbl_runtime @ ''N/A'' @ [CHR 0x0A]
     @ lbl_genre @ ''Drama'' @ [CHR 0x0A]
     @ lbl_director @ ''Ann'' @ [CHR 0x0A]
     @ lbl_actors @ ''N/A'' @ [CHR 0x0A]
     @ lbl_plot @ ''N/A'' @ [CHR 0x0A]
     @ lbl_language @ ''N/A'' @ [CHR 0x0A]
     @ lbl_country @ ''N/A'' @ [CHR 0x0A]
     @ lbl_awards @ ''N/A'' @ [CHR 0x0A]
     @ lbl_imdb_rating @ ''7.1'' @ ''/10 ('' @ ''N/A'' @ txt_votes"
    using info by (simp add: movie_a_fields)
  have b: "format_movie_from_csv (as_series small_dataset heat_row) =
       Inr (lbl_title @ ''Heat'' @ [CHR 0x0A]
           @ lbl_year @ ''1995'' @ [CHR 0x0A]
           @ lbl_csv_rating @ ''8.3'' @ ''/10'' @ [CHR 0x0A]
           @ lbl_genre @ ''Crime, Drama'' @ [CHR 0x0A]
           @ lbl_director @ ''Michael Mann'' @ [CHR 0x0A]
           @ lbl_actors @ ''Al Pacino'' @ '', '' @ ''Robert De Niro'' @ '', '' @ ''Val Kilmer'' @ '', '' @ ''Jon Voight'' @ [CHR 0x0A]
           @ lbl_plot @ ''nan'' @ [CHR 0x0A] @ [CHR 0x0A]
           @ txt_csv_source)"
    using csv by (simp add: heat_series)
  have c: "format_movie_from_csv (as_series dataset_without_overview heat_row)
       = Inl (KeyError ''Overview'')"
    using raised by (simp add: first_absent)
  show ?thesis
    using a b c absent present by simp
qed

text \<open>
  C7, as stated, fails for \<open>search_movies_by_year_and_type\<close>: given fifteen results
  it renders fifteen lines, and its lines end after the year, without the type.
\<close>

theorem year_type_list_counterexample:
  "fst (call_omdb_api cfg_ok fifteen_world 0
          [''s'' \<mapsto> ''M'', ''y'' \<mapsto> ''2000'', ''type'' \<mapsto> ''movie''] 3 1)
     = Inr (Some fifteen_results)
   \<and> length (get_search fifteen_results) = 15
   \<and> search_movies_by_year_and_type cfg_ok fifteen_world 0 ''M'' ''2000'' ''movie'' =
       Inr (txt_found @ ''15'' @ txt_movies_paren @ ''2000, movie):'' @ [CHR 0x0A, CHR 0x0A]
            @ concat (map (\<lambda>l. l @ [CHR 0x0A])
                [''1. M1 (2000)'', ''2. M2 (2000)'', ''3. M3 (2000)'', ''4. M4 (2000)'',
                 ''5. M5 (2000)'', ''6. M6 (2000)'', ''7. M7 (2000)'', ''8. M8 (2000)'',
                 ''9. M9 (2000)'', ''10. M10 (2000)'', ''11. M11 (2000)'', ''12. M12 (2000)'',
                 ''13. M13 (2000)'', ''14. M14 (2000)'', ''15. M15 (2000)'']))"
  using str_nat_upto_15
  by (simp add: search_movies_by_year_and_type_def fifteen_world_call fifteen_search Let_def
        fifteen_movies_def year_type_line_def movie_n_fields numeral_2_eq_2 [symmetric])

text \<open>
  C7, amended. When the API returns a result whose \<open>totalResults\<close> is not \<open>"0"\<close> and
  whose \<open>Search\<close> list is not empty: \<open>search_movies_list\<close> renders the first ten
  records (whatever \<open>totalResults\<close> says) as lines numbered from 1 in input order, each
  of the form \<open>{index}. {title} ({year}) - {type}\<close>, between its header and its footer;
  \<open>search_movies_by_year_and_type\<close> renders all the records, numbered from 1 in
  input order, each line of the form \<open>{index}. {title} ({year})\<close>, after its header.
\<close>

theorem search_lists_rendering:
  "(fst (call_omdb_api cfg w clock (with_year [''s'' \<mapsto> query] year) 3 1) = Inr (Some result)
      \<and> field result ''totalResults'' \<noteq> Some (JStr ''0'') \<and> get_search result \<noteq> [] \<longrightarrow>
    search_movies_list cfg w clock query year =
      Inr (txt_found @ total_results result (get_search result) @ txt_movies_for_query_mid
             @ query @ [CHR 0x27] @ '':'' @ [CHR 0x0A, CHR 0x0A]
           @ concat (map (\<lambda>k. list_line (k + 1) (get_search result ! k))
                       [0..<min 10 (length (get_search result))])
           @ txt_list_footer))
   \<and> (fst (call_omdb_api cfg w clock
              [''s'' \<mapsto> query, ''y'' \<mapsto> year', ''type'' \<mapsto> movie_type] 3 1) = Inr (Some result)
      \<and> field result ''totalResults'' \<noteq> Some (JStr ''0'') \<and> get_search result \<noteq> [] \<longrightarrow>
    search_movies_by_year_and_type cfg w clock query year' movie_type =
      Inr (txt_found @ total_results result (get_search result) @ txt_movies_paren
             @ year' @ '', '' @ movie_type @ ''):'' @ [CHR 0x0A, CHR 0x0A]
           @ concat (map (\<lambda>k. year_type_line (k + 1) (get_search result ! k))
                       [0..<length (get_search result)])))
   \<and> list_line i movie =
       str_nat i @ ''. '' @ get_na movie ''Title'' @ '' ('' @ get_na movie ''Year'' @ '') - ''
         @ get_na movie ''Type'' @ [CHR 0x0A]
   \<and> year_type_line i movie =
       str_nat i @ ''. '' @ get_na movie ''Title'' @ '' ('' @ get_na movie ''Year'' @ '')''
         @ [CHR 0x0A]"
proof -
  have listed: "fst (call_omdb_api cfg w clock (with_year [''s'' \<mapsto> query] year) 3 1)
        = Inr (Some result)
      \<and> field result ''totalResults'' \<noteq> Some (JStr ''0'') \<and> get_search result \<noteq> [] \<longrightarrow>
    search_movies_list cfg w clock query year =
      Inr (txt_found @ total_results result (get_search result) @ txt_movies_for_query_mid
             @ query @ [CHR 0x27] @ '':'' @ [CHR 0x0A, CHR 0x0A]
           @ concat (map (\<lambda>k. list_line (k + 1) (get_search result ! k))
                       [0..<min 10 (length (get_search result))])
           @ txt_list_footer)"
    by (simp add: search_movies_list_def Let_def enumerate_lines_take)
  have by_year: "fst (call_omdb_api cfg w clock
              [''s'' \<mapsto> query, ''y'' \<mapsto> year', ''type'' \<mapsto> movie_type] 3 1) = Inr (Some result)
      \<and> field result ''totalResults'' \<noteq> Some (JStr ''0'') \<and> get_search result \<noteq> [] \<longrightarrow>
    search_movies_by_year_and_type cfg w clock query year' movie_type =
      Inr (txt_found @ total_results result (get_search result) @ txt_movies_paren
             @ year' @ '', '' @ movie_type @ ''):'' @ [CHR 0x0A, CHR 0x0A]
           @ concat (map (\<lambda>k. year_type_line (k + 1) (get_search result ! k))
                       [0..<length (get_search result)]))"
    by (simp add: search_movies_by_year_and_type_def Let_def enumerate_lines_all)
  show ?thesis
    using listed by_year by (simp add: list_line_def year_type_line_def)
qed

theorem search_lists_rendering_witness:
  "fst (call_omdb_api cfg_ok fifteen_world 0 (with_year [''s'' \<mapsto> ''M''] None) 3 1)
     = Inr (Some fifteen_results)
   \<and> fst (call_omdb_api cfg_ok fifteen_world 0
            [''s'' \<mapsto> ''M'', ''y'' \<mapsto> ''2000'', ''type'' \<mapsto> ''movie''] 3 1)
     = Inr (Some fifteen_results)
   \<and> field fifteen_results ''totalResults'' \<noteq> Some (JStr ''0'')
   \<and> get_search fifteen_results \<noteq> []
   \<and> length (get_search fifteen_results) = 15
   \<and> search_movies_list cfg_ok fifteen_world 0 ''M'' None =
       Inr (txt_found @ ''15'' @ txt_movies_for_query_mid @ ''M'' @ [CHR 0x27] @ '':''
              @ [CHR 0x0A, CHR 0x0A]
            @ concat (map (\<lambda>k. list_line (k + 1) (fifteen_movies ! k)) [0..<10])
            @ txt_list_footer)
   \<and> concat (map (\<lambda>k. list_line (k + 1) (fifteen_movies ! k)) [0..<10]) =
       concat (map (\<lambda>l. l @ [CHR 0x0A])
         [''1. M1 (2000) - movie'', ''2. M2 (2000) - movie'', ''3. M3 (2000) - movie'',
          ''4. M4 (2000) - movie'', ''5. M5 (2000) - movie'', ''6. M6 (2000) - movie'',
          ''7. M7 (2000) - movie'', ''8. M8 (2000) - movie'', ''9. M9 (2000) - movie'',
          ''10. M10 (2000) - movie''])
   \<and> search_movies_by_year_and_type cfg_ok fifteen_world 0 ''M'' ''2000'' ''movie'' =
       Inr (txt_found @ ''15'' @ txt_movies_paren @ ''2000, movie):'' @ [CHR 0x0A, CHR 0x0A]
            @ concat (map (\<lambda>k. year_type_line (k + 1) (fifteen_movies ! k)) [0..<15]))"
proof -
  have len: "length fifteen_movies = 15" by (simp add: fifteen_movies_def)
  have ne: "fifteen_movies \<noteq> []" by (simp add: fifteen_movies_def)
  have ten: "concat (map (\<lambda>k. list_line (k + 1) (fifteen_movies ! k)) [0..<10]) =
       concat (map (\<lambda>l. l @ [CHR 0x0A])
         [''1. M1 (2000) - movie'', ''2. M2 (2000) - movie'', ''3. M3 (2000) - movie'',
          ''4. M4 (2000) - movie'', ''5. M5 (2000) - movie'', ''6. M6 (2000) - movie'',
          ''7. M7 (2000) - movie'', ''8. M8 (2000) - movie'', ''9. M9 (2000) - movie'',
          ''10. M10 (2000) - movie''])"
    using str_nat_upto_15
    by (simp add: fifteen_movies_def list_line_def movie_n_fields eval_nat_numeral
          upt_conv_Cons del: upt_Suc)
  show ?thesis
    using search_lists_rendering[of cfg_ok fifteen_world 0 "''M''" None fifteen_results
        "''2000''" "''movie''"] len ne ten
    by (simp add: fifteen_world_call fifteen_search)
qed

text \<open>
  C8. For every movie record in which \<open>Plot\<close> is absent, the text that
  \<open>format_movie_info\<close> returns has the plot label followed by \<open>N/A\<close> as its ninth
  line, and every other line equals the corresponding line for the same record with a
  plot: the two texts are the same eight lines, the plot line, and the same four lines.
\<close>

theorem missing_plot_only_changes_plot_line:
  assumes "movie_data ''Plot'' = None"
  shows "format_movie_info movie_data =
           lbl_title @ get_na movie_data ''Title'' @ [CHR 0x0A]
           @ lbl_year @ get_na movie_data ''Year'' @ [CHR 0x0A]
           @ lbl_rated @ get_na movie_data ''Rated'' @ [CHR 0x0A]
           @ lbl_released @ get_na movie_data ''Released'' @ [CHR 0x0A]
           @ lbl_runtime @ get_na movie_data ''Runtime'' @ [CHR 0x0A]
           @ lbl_genre @ get_na movie_data ''Genre'' @ [CHR 0x0A]
           @ lbl_director @ get_na movie_data ''Director'' @ [CHR 0x0A]
           @ lbl_actors @ get_na movie_data ''Actors'' @ [CHR 0x0A]
           @ lbl_plot @ ''N/A'' @ [CHR 0x0A]
           @ lbl_language @ get_na movie_data ''Language'' @ [CHR 0x0A]
           @ lbl_country @ get_na movie_data ''Country'' @ [CHR 0x0A]
           @ lbl_awards @ get_na movie_data ''Awards'' @ [CHR 0x0A]
           @ lbl_imdb_rating @ get_na movie_data ''imdbRating'' @ ''/10 ('' @ get_na movie_data ''imdbVotes'' @ txt_votes
       \<and> format_movie_info (movie_data(''Plot'' \<mapsto> plot)) =
           lbl_title @ get_na movie_data ''Title'' @ [CHR 0x0A]
           @ lbl_year @ get_na movie_data ''Year'' @ [CHR 0x0A]
           @ lbl_rated @ get_na movie_data ''Rated'' @ [CHR 0x0A]
           @ lbl_released @ get_na movie_data ''Released'' @ [CHR 0x0A]
           @ lbl_runtime @ get_na movie_data ''Runtime'' @ [CHR 0x0A]
           @ lbl_genre @ get_na movie_data ''Genre'' @ [CHR 0x0A]
           @ lbl_director @ get_na movie_data ''Director'' @ [CHR 0x0A]
           @ lbl_actors @ get_na movie_data ''Actors'' @ [CHR 0x0A]
           @ lbl_plot @ str_json plot @ [CHR 0x0A]
           @ lbl_language @ get_na movie_data ''Language'' @ [CHR 0x0A]
           @ lbl_country @ get_na movie_data ''Country'' @ [CHR 0x0A]
           @ lbl_awards @ get_na movie_data ''Awards'' @ [CHR 0x0A]
           @ lbl_imdb_rating @ get_na movie_data ''imdbRating'' @ ''/10 ('' @ get_na movie_data ''imdbVotes'' @ txt_votes
       \<and> movie_info_lines movie_data ! 8 = lbl_plot @ ''N/A''
       \<and> movie_info_lines movie_data
           = (movie_info_lines (movie_data(''Plot'' \<mapsto> plot)))[8 := lbl_plot @ ''N/A'']
       \<and> (\<forall>i < 13. i \<noteq> 8 \<longrightarrow>
             movie_info_lines movie_data ! i
               = movie_info_lines (movie_data(''Plot'' \<mapsto> plot)) ! i)"
proof -
  have without: "format_movie_info movie_data =
           lbl_title @ get_na movie_data ''Title'' @ [CHR 0x0A]
           @ lbl_year @ get_na movie_data ''Year'' @ [CHR 0x0A]
           @ lbl_rated @ get_na movie_data ''Rated'' @ [CHR 0x0A]
           @ lbl_released @ get_na movie_data ''Released'' @ [CHR 0x0A]
           @ lbl_runtime @ get_na movie_data ''Runtime'' @ [CHR 0x0A]
           @ lbl_genre @ get_na movie_data ''Genre'' @ [CHR 0x0A]
           @ lbl_director @ get_na movie_data ''Director'' @ [CHR 0x0A]
           @ lbl_actors @ get_na movie_data ''Actors'' @ [CHR 0x0A]
           @ lbl_plot @ ''N/A'' @ [CHR 0x0A]
           @ lbl_language @ get_na movie_data ''Language'' @ [CHR 0x0A]
           @ lbl_country @ get_na movie_data ''Country'' @ [CHR 0x0A]
           @ lbl_awards @ get_na movie_data ''Awards'' @ [CHR 0x0A]
           @ lbl_imdb_rating @ get_na movie_data ''imdbRating'' @ ''/10 ('' @ get_na movie_data ''imdbVotes'' @ txt_votes"
    using assms by (simp add: format_movie_info_text) (simp add: get_na_def)
  have other: "get_na (movie_data(''Plot'' \<mapsto> plot)) key = get_na movie_data key"
    if "key \<noteq> ''Plot''" for key
    using that by (simp add: get_na_def)
  have "with": "format_movie_info (movie_data(''Plot'' \<mapsto> plot)) =
           lbl_title @ get_na movie_data ''Title'' @ [CHR 0x0A]
           @ lbl_year @ get_na movie_data ''Year'' @ [CHR 0x0A]
           @ lbl_rated @ get_na movie_data ''Rated'' @ [CHR 0x0A]
           @ lbl_released @ get_na movie_data ''Released'' @ [CHR 0x0A]
           @ lbl_runtime @ get_na movie_data ''Runtime'' @ [CHR 0x0A]
           @ lbl_genre @ get_na movie_data ''Genre'' @ [CHR 0x0A]
           @ lbl_director @ get_na movie_data ''Director'' @ [CHR 0x0A]
           @ lbl_actors @ get_na movie_data ''Actors'' @ [CHR 0x0A]
           @ lbl_plot @ str_json plot @ [CHR 0x0A]
           @ lbl_language @ get_na movie_data ''Language'' @ [CHR 0x0A]
           @ lbl_country @ get_na movie_data ''Country'' @ [CHR 0x0A]
           @ lbl_awards @ get_na movie_data ''Awards'' @ [CHR 0x0A]
           @ lbl_imdb_rating @ get_na movie_data ''imdbRating'' @ ''/10 ('' @ get_na movie_data ''imdbVotes'' @ txt_votes"
    by (simp add: format_movie_info_text other) (simp add: get_na_def)
  have upd: "movie_info_lines movie_data
           = (movie_info_lines (movie_data(''Plot'' \<mapsto> plot)))[8 := lbl_plot @ ''N/A'']"
    using assms by (simp add: movie_info_lines_def Let_def get_na_def)
  have plot_line: "movie_info_lines movie_data ! 8 = lbl_plot @ ''N/A''"
    using assms by (simp add: movie_info_lines_def Let_def get_na_def)
  have others: "\<forall>i < 13. i \<noteq> 8 \<longrightarrow>
             movie_info_lines movie_data ! i
               = movie_info_lines (movie_data(''Plot'' \<mapsto> plot)) ! i"
    by (subst upd) (simp add: movie_info_lines_length)
  show ?thesis using without "with" upd plot_line others by blast
qed

theorem missing_plot_only_changes_plot_line_witness:
  "movie_a ''Plot'' = None
   \<and> format_movie_info movie_a =
       lbl_title @ ''Alpha'' @ [CHR 0x0A]
       @ lbl_year @ ''1999'' @ [CHR 0x0A]
       @ lbl_rated @ ''N/A'' @ [CHR 0x0A]
       @ lbl_released @ ''N/A'' @ [CHR 0x0A]
       @ lbl_runtime @ ''N/A'' @ [CHR 0x0A]
       @ lbl_genre @ ''Drama'' @ [CHR 0x0A]
       @ lbl_director @ ''Ann'' @ [CHR 0x0A]
       @ lbl_actors @ ''N/A'' @ [CHR 0x0A]
       @ lbl_plot @ ''N/A'' @ [CHR 0x0A]
       @ lbl_language @ ''N/A'' @ [CHR 0x0A]
       @ lbl_country @ ''N/A'' @ [CHR 0x0A]
       @ lbl_awards @ ''N/A'' @ [CHR 0x0A]
       @ lbl_imdb_rating @ ''7.1'' @ ''/10 ('' @ ''N/A'' @ txt_votes
   \<and> format_movie_info (movie_a(''Plot'' \<mapsto> JStr ''A story.'')) =
       lbl_title @ ''Alpha'' @ [CHR 0x0A]
       @ lbl_year @ ''1999'' @ [CHR 0x0A]
       @ lbl_rated @ ''N/A'' @ [CHR 0x0A]
       @ lbl_released @ ''N/A'' @ [CHR 0x0A]
       @ lbl_runtime @ ''N/A'' @ [CHR 0x0A]
       @ lbl_genre @ ''Drama'' @ [CHR 0x0A]
       @ lbl_director @ ''Ann'' @ [CHR 0x0A]
       @ lbl_actors @ ''N/A'' @ [CHR 0x0A]
       @ lbl_plot @ ''A story.'' @ [CHR 0x0A]
       @ lbl_language @ ''N/A'' @ [CHR 0x0A]
       @ lbl_country @ ''N/A'' @ [CHR 0x0A]
       @ lbl_awards @ ''N/A'' @ [CHR 0x0A]
       @ lbl_imdb_rating @ ''7.1'' @ ''/10 ('' @ ''N/A'' @ txt_votes"
proof -
  have absent: "movie_a ''Plot'' = None" by (simp add: movie_a_def)
  show ?thesis
    using missing_plot_only_changes_plot_line[of movie_a "JStr ''A story.''"] absent
    by (simp add: movie_a_fields)
qed

text \<open>
  C9. With the API key configured and the lookup by title a fixed function (the service
  answers each of the two titles with the same record whenever asked, and both records
  are successes): \<open>compare_two_movies title1 title2\<close> renders the table of the seven
  compared fields with the first record on the left, and
  \<open>compare_two_movies title2 title1\<close> renders the same table with the two columns
  swapped, the content of every field unchanged.
\<close>

theorem compare_swapped_columns:
  assumes key: "OMDB_API_KEY cfg \<noteq> []"
    and first: "\<forall>n. w n ([''apikey'' \<mapsto> OMDB_API_KEY cfg] ++ [''t'' \<mapsto> title1]) = Response j1"
    and second: "\<forall>n. w n ([''apikey'' \<mapsto> OMDB_API_KEY cfg] ++ [''t'' \<mapsto> title2]) = Response j2"
    and ok1: "field j1 ''Response'' \<noteq> Some (JStr ''False'')"
    and ok2: "field j2 ''Response'' \<noteq> Some (JStr ''False'')"
  shows "compare_two_movies cfg w clock title1 title2
           = Inr (render_table (get_na (field j1) ''Title'') (get_na (field j2) ''Title'')
                    (comparison_table (field j1) (field j2)))
       \<and> compare_two_movies cfg w clock' title2 title1
           = Inr (render_table (get_na (field j2) ''Title'') (get_na (field j1) ''Title'')
                    (swap_columns (comparison_table (field j1) (field j2))))"
proof -
  have call1: "call_omdb_api cfg w c [''t'' \<mapsto> title1] 3 1 = (Inr (Some j1), [Request])" for c
    by (rule call_omdb_api_found) (use key first ok1 in simp_all)
  have call2: "call_omdb_api cfg w c [''t'' \<mapsto> title2] 3 1 = (Inr (Some j2), [Request])" for c
    by (rule call_omdb_api_found) (use key second ok2 in simp_all)
  have "compare_two_movies cfg w clock title1 title2 = Inr (comparison (field j1) (field j2))"
    by (simp add: compare_two_movies_def call1 call2)
  moreover
  have "compare_two_movies cfg w clock' title2 title1 = Inr (comparison (field j2) (field j1))"
    by (simp add: compare_two_movies_def call1 call2)
  ultimately show ?thesis
    by (simp add: comparison_as_table comparison_table_swap[where a = "field j1" and b = "field j2"])
qed

theorem compare_swapped_columns_witness:
  "OMDB_API_KEY cfg_ok \<noteq> []
   \<and> (\<forall>n. two_movies_world n ([''apikey'' \<mapsto> OMDB_API_KEY cfg_ok] ++ [''t'' \<mapsto> ''Alpha''])
          = Response \<lparr>field = movie_a, search = None\<rparr>)
   \<and> (\<forall>n. two_movies_world n ([''apikey'' \<mapsto> OMDB_API_KEY cfg_ok] ++ [''t'' \<mapsto> ''Beta''])
          = Response \<lparr>field = movie_b, search = None\<rparr>)
   \<and> movie_a ''Response'' \<noteq> Some (JStr ''False'')
   \<and> movie_b ''Response'' \<noteq> Some (JStr ''False'')
   \<and> compare_two_movies cfg_ok two_movies_world 0 ''Alpha'' ''Beta''
       = Inr (render_table ''Alpha'' ''Beta'' (comparison_table movie_a movie_b))
   \<and> compare_two_movies cfg_ok two_movies_world 2 ''Beta'' ''Alpha''
       = Inr (render_table ''Beta'' ''Alpha'' (swap_columns (comparison_table movie_a movie_b)))
   \<and> comparison_table movie_a movie_b =
       [(hdr_year, txt_bullet @ ''Alpha: 1999'', txt_bullet @ ''Beta: 2005''),
        (hdr_genre, txt_bullet @ ''Alpha: Drama'', txt_bullet @ ''Beta: N/A''),
        (hdr_director, txt_bullet @ ''Alpha: Ann'', txt_bullet @ ''Beta: N/A''),
        (hdr_imdb_rating, txt_bullet @ ''Alpha: 7.1/10'', txt_bullet @ ''Beta: N/A/10''),
        (hdr_runtime, txt_bullet @ ''Alpha: N/A'', txt_bullet @ ''Beta: 101 min''),
        (hdr_actors, txt_bullet @ ''Alpha: N/A'', txt_bullet @ ''Beta: Bob''),
        (hdr_awards, txt_bullet @ ''Alpha: N/A'', txt_bullet @ ''Beta: None'')]"
proof -
  have first: "\<forall>n. two_movies_world n ([''apikey'' \<mapsto> OMDB_API_KEY cfg_ok] ++ [''t'' \<mapsto> ''Alpha''])
          = Response \<lparr>field = movie_a, search = None\<rparr>"
    by (simp add: two_movies_world_def map_add_def)
  have second: "\<forall>n. two_movies_world n ([''apikey'' \<mapsto> OMDB_API_KEY cfg_ok] ++ [''t'' \<mapsto> ''Beta''])
          = Response \<lparr>field = movie_b, search = None\<rparr>"
    by (simp add: two_movies_world_def map_add_def)
  have ok: "movie_a ''Response'' \<noteq> Some (JStr ''False'')"
    "movie_b ''Response'' \<noteq> Some (JStr ''False'')"
    by (simp_all add: movie_a_def movie_b_def)
  have names: "get_na movie_a ''Title'' = ''Alpha''" "get_na movie_b ''Title'' = ''Beta''"
    by (simp_all add: movie_a_def movie_b_def get_na_def)
  have table: "comparison_table movie_a movie_b =
       [(hdr_year, txt_bullet @ ''Alpha: 1999'', txt_bullet @ ''Beta: 2005''),
        (hdr_genre, txt_bullet @ ''Alpha: Drama'', txt_bullet @ ''Beta: N/A''),
        (hdr_director, txt_bullet @ ''Alpha: Ann'', txt_bullet @ ''Beta: N/A''),
        (hdr_imdb_rating, txt_bullet @ ''Alpha: 7.1/10'', txt_bullet @ ''Beta: N/A/10''),
        (hdr_runtime, txt_bullet @ ''Alpha: N/A'', txt_bullet @ ''Beta: 101 min''),
        (hdr_actors, txt_bullet @ ''Alpha: N/A'', txt_bullet @ ''Beta: Bob''),
        (hdr_awards, txt_bullet @ ''Alpha: N/A'', txt_bullet @ ''Beta: None'')]"
    by (simp add: comparison_table_def comparison_fields_def entry_def get_na_def movie_a_def
          movie_b_def)
  show ?thesis
    using compare_swapped_columns[of cfg_ok two_movies_world "''Alpha''"
        "\<lparr>field = movie_a, search = None\<rparr>" "''Beta''" "\<lparr>field = movie_b, search = None\<rparr>" 0 2]
      cfg_ok_key first second ok names table
    by simp
qed

end
